theory Spec2Isabelle
  imports Complex_Main
begin

section \<open>The Decimal values of the numeric engine\<close>

text \<open>
  Modelled from the spec: the \<open>Decimal\<close> class and its operations, which the strategy
  utilities import from the numerics module and which are not part of the sources at hand. The
  specification describes an arbitrary-precision signed decimal with exact add, subtract,
  multiply, divide, square root and compare, so a finite value is a real number and the
  operations on finite values are the exact ones. A division by zero is not an exception of
  that type: it yields an infinite or an undefined (NaN) value, which the later operations
  propagate. The two zeros of the class are the one value \<open>Fin 0\<close>.

  Every string of the sources that holds a number (a price, a budget, a rate, a liquidity) is a
  value of this type: \<open>new Decimal(s)\<close>, \<open>toString()\<close> and \<open>toFixed()\<close> are the
  identity on it.
\<close>

datatype decimal = NaN | Infinity bool | Fin real
  \<comment> \<open>\<open>Infinity True\<close> is the negative infinity\<close>

fun negated :: "decimal \<Rightarrow> decimal" where
  "negated NaN = NaN"
| "negated (Infinity n) = Infinity (\<not> n)"
| "negated (Fin x) = Fin (- x)"

fun plus_dec :: "decimal \<Rightarrow> decimal \<Rightarrow> decimal" where
  "plus_dec NaN _ = NaN"
| "plus_dec _ NaN = NaN"
| "plus_dec (Infinity a) (Infinity b) = (if a = b then Infinity a else NaN)"
| "plus_dec (Infinity a) (Fin _) = Infinity a"
| "plus_dec (Fin _) (Infinity b) = Infinity b"
| "plus_dec (Fin x) (Fin y) = Fin (x + y)"

definition minus_dec :: "decimal \<Rightarrow> decimal \<Rightarrow> decimal" where
  "minus_dec x y = plus_dec x (negated y)"

fun times_dec :: "decimal \<Rightarrow> decimal \<Rightarrow> decimal" where
  "times_dec NaN _ = NaN"
| "times_dec _ NaN = NaN"
| "times_dec (Infinity a) (Infinity b) = Infinity (a \<noteq> b)"
| "times_dec (Infinity a) (Fin y) = (if y = 0 then NaN else Infinity (a \<noteq> (y < 0)))"
| "times_dec (Fin x) (Infinity b) = (if x = 0 then NaN else Infinity ((x < 0) \<noteq> b))"
| "times_dec (Fin x) (Fin y) = Fin (x * y)"

fun div_dec :: "decimal \<Rightarrow> decimal \<Rightarrow> decimal" where
  "div_dec NaN _ = NaN"
| "div_dec _ NaN = NaN"
| "div_dec (Infinity a) (Infinity b) = NaN"
| "div_dec (Infinity a) (Fin y) = Infinity (a \<noteq> (y < 0))"
| "div_dec (Fin x) (Infinity b) = Fin 0"
| "div_dec (Fin x) (Fin y) =
     (if y = 0 then (if x = 0 then NaN else Infinity (x < 0)) else Fin (x / y))"

fun sqrt_dec :: "decimal \<Rightarrow> decimal" where
  "sqrt_dec NaN = NaN"
| "sqrt_dec (Infinity n) = (if n then NaN else Infinity False)"
| "sqrt_dec (Fin x) = (if x < 0 then NaN else Fin (sqrt x))"

fun ceil :: "decimal \<Rightarrow> decimal" where
  "ceil (Fin x) = Fin (of_int \<lceil>x\<rceil>)"
| "ceil d = d"

fun floor_dec :: "decimal \<Rightarrow> decimal" where
  "floor_dec (Fin x) = Fin (of_int \<lfloor>x\<rfloor>)"
| "floor_dec d = d"

fun isNegative :: "decimal \<Rightarrow> bool" where
  "isNegative NaN = False"
| "isNegative (Infinity n) = n"
| "isNegative (Fin x) = (x < 0)"

fun gt :: "decimal \<Rightarrow> decimal \<Rightarrow> bool" where
  "gt NaN _ = False"
| "gt _ NaN = False"
| "gt (Infinity a) (Infinity b) = (\<not> a \<and> b)"
| "gt (Infinity a) (Fin _) = (\<not> a)"
| "gt (Fin _) (Infinity b) = b"
| "gt (Fin x) (Fin y) = (y < x)"

section \<open>Helpers of the numerics module\<close>

text \<open>
  Modelled from the spec: \<open>tenPow\<close>, which is imported from the numerics module and is not
  part of the sources at hand. A rate is scaled by ten to the power of the difference of the
  two decimals counts, which may be negative.
\<close>

definition tenPow :: "nat \<Rightarrow> nat \<Rightarrow> decimal" where
  "tenPow dec0 dec1 = Fin (if dec1 \<le> dec0 then 10 ^ (dec0 - dec1) else 1 / 10 ^ (dec1 - dec0))"

text \<open>
  Modelled from the spec: \<open>trimDecimal\<close>, imported from the numerics module. It cuts a
  decimal string down to at most the given number of fractional digits and never rounds up, so
  the digits that remain are those of the input: a truncation towards zero.
\<close>

definition truncate_places :: "nat \<Rightarrow> real \<Rightarrow> real" where
  "truncate_places n x =
     (if x < 0 then - (of_int \<lfloor>- x * 10 ^ n\<rfloor> / 10 ^ n) else of_int \<lfloor>x * 10 ^ n\<rfloor> / 10 ^ n)"

fun trimDecimal :: "decimal \<Rightarrow> nat \<Rightarrow> decimal" where
  "trimDecimal (Fin x) precision = Fin (truncate_places precision x)"
| "trimDecimal d precision = d"

text \<open>
  Modelled from the spec: \<open>parseUnits\<close> and \<open>formatUnits\<close>, imported from the numerics
  module. The first converts a human amount to base units, the amount times ten to the
  decimals, cut to an integer (the policy for a deliverable amount); the second divides a
  base-unit amount by ten to the decimals, exactly.
\<close>

definition parseUnits :: "decimal \<Rightarrow> nat \<Rightarrow> decimal" where
  "parseUnits amount decimals = trimDecimal (times_dec amount (Fin (10 ^ decimals))) 0"

definition formatUnits :: "decimal \<Rightarrow> nat \<Rightarrow> decimal" where
  "formatUnits amount decimals = div_dec amount (Fin (10 ^ decimals))"

section \<open>Rates\<close>

text \<open>
  The inverted form guards its division with the test \<open>+amount.toString() === 0\<close>, which
  converts the decimal string to a double-precision number first. The conversion rounds to the
  nearest double, ties to even, so it yields zero exactly for the values of magnitude at most
  \<open>2 ^ -1075\<close>, half the smallest positive double; NaN and the infinities are not zero.
\<close>

definition underflow_bound :: real where
  "underflow_bound = 1 / 2 ^ 1075"

fun number_is_zero :: "decimal \<Rightarrow> bool" where
  "number_is_zero (Fin x) = (\<bar>x\<bar> \<le> underflow_bound)"
| "number_is_zero d = False"

definition normalizeRate :: "decimal \<Rightarrow> nat \<Rightarrow> nat \<Rightarrow> decimal" where
  "normalizeRate amount amountTokenDecimals otherTokenDecimals =
     times_dec amount (tenPow amountTokenDecimals otherTokenDecimals)"

definition normalizeInvertedRate :: "decimal \<Rightarrow> nat \<Rightarrow> nat \<Rightarrow> decimal" where
  "normalizeInvertedRate amount amountTokenDecimals otherTokenDecimals =
     (if number_is_zero amount then Fin 0
      else times_dec (div_dec (Fin 1) amount) (tenPow otherTokenDecimals amountTokenDecimals))"

section \<open>Orders and strategies\<close>

datatype error = Error string

record DecodedOrder =
  liquidity :: decimal
  lowestRate :: decimal
  highestRate :: decimal
  marginalRate :: decimal

record 'o order_pair =
  order0 :: 'o
  order1 :: 'o

text \<open>
  A decoded strategy holds decoded orders, an encoded strategy without its id holds the orders
  as the on-chain codec packs them; both are a pair of orders with the two token addresses.
\<close>

record 'o strategy_orders = "'o order_pair" +
  token0 :: string
  token1 :: string

record 'o EncodedStrategy = "'o strategy_orders" +
  strategy_id :: int

record ('o, 'e) with_encoded = "'o EncodedStrategy" +
  encoded :: 'e

record 'e Strategy =
  str_id :: int
  str_baseToken :: string
  str_quoteToken :: string
  str_buyPriceLow :: decimal
  str_buyPriceMarginal :: decimal
  str_buyPriceHigh :: decimal
  str_buyBudget :: decimal
  str_sellPriceLow :: decimal
  str_sellPriceMarginal :: decimal
  str_sellPriceHigh :: decimal
  str_sellBudget :: decimal
  str_encoded :: 'e

text \<open>The on-chain codec is a parameter: \<open>encodeOrder\<close> and \<open>decodeOrder\<close>.\<close>

definition encodeStrategy ::
  "(DecodedOrder \<Rightarrow> 'eo) \<Rightarrow> DecodedOrder strategy_orders \<Rightarrow> 'eo strategy_orders" where
  "encodeStrategy encodeOrder strategy =
     \<lparr>order0 = encodeOrder (order0 strategy), order1 = encodeOrder (order1 strategy),
      token0 = token0 strategy, token1 = token1 strategy\<rparr>"

definition decodeStrategy ::
  "('eo \<Rightarrow> DecodedOrder) \<Rightarrow> 'eo EncodedStrategy
     \<Rightarrow> (DecodedOrder, 'eo EncodedStrategy) with_encoded" where
  "decodeStrategy decodeOrder strategy =
     \<lparr>order0 = decodeOrder (order0 strategy), order1 = decodeOrder (order1 strategy),
      token0 = token0 strategy, token1 = token1 strategy,
      strategy_id = strategy_id strategy, encoded = strategy\<rparr>"

definition createOrders ::
  "nat \<Rightarrow> nat \<Rightarrow> decimal \<Rightarrow> decimal \<Rightarrow> decimal \<Rightarrow> decimal
     \<Rightarrow> decimal \<Rightarrow> decimal \<Rightarrow> decimal \<Rightarrow> decimal \<Rightarrow> DecodedOrder order_pair" where
  "createOrders baseTokenDecimals quoteTokenDecimals
       buyPriceLow buyPriceMarginal buyPriceHigh buyBudget
       sellPriceLow sellPriceMarginal sellPriceHigh sellBudget =
     (let liquidity0 = parseUnits sellBudget baseTokenDecimals;
          lowestRate0 = normalizeInvertedRate sellPriceHigh quoteTokenDecimals baseTokenDecimals;
          marginalRate0 =
            normalizeInvertedRate sellPriceMarginal quoteTokenDecimals baseTokenDecimals;
          highestRate0 = normalizeInvertedRate sellPriceLow quoteTokenDecimals baseTokenDecimals;
          liquidity1 = parseUnits buyBudget quoteTokenDecimals;
          lowestRate1 = normalizeRate buyPriceLow quoteTokenDecimals baseTokenDecimals;
          marginalRate1 = normalizeRate buyPriceMarginal quoteTokenDecimals baseTokenDecimals;
          highestRate1 = normalizeRate buyPriceHigh quoteTokenDecimals baseTokenDecimals
      in \<lparr>order0 = \<lparr>liquidity = liquidity0, lowestRate = lowestRate0,
                      highestRate = highestRate0, marginalRate = marginalRate0\<rparr>,
          order1 = \<lparr>liquidity = liquidity1, lowestRate = lowestRate1,
                      highestRate = highestRate1, marginalRate = marginalRate1\<rparr>\<rparr>)"

definition buildStrategyObject ::
  "string \<Rightarrow> string \<Rightarrow> nat \<Rightarrow> nat \<Rightarrow> decimal \<Rightarrow> decimal \<Rightarrow> decimal \<Rightarrow> decimal
     \<Rightarrow> decimal \<Rightarrow> decimal \<Rightarrow> decimal \<Rightarrow> decimal
     \<Rightarrow> error + DecodedOrder strategy_orders" where
  "buildStrategyObject baseToken quoteToken baseDecimals quoteDecimals
       buyPriceLow buyPriceMarginal buyPriceHigh buyBudget
       sellPriceLow sellPriceMarginal sellPriceHigh sellBudget =
     (if isNegative buyPriceLow \<or> isNegative buyPriceMarginal \<or> isNegative buyPriceHigh
         \<or> isNegative sellPriceLow \<or> isNegative sellPriceMarginal
         \<or> isNegative sellPriceHigh
      then Inl (Error ''prices cannot be negative'')
      else if gt buyPriceLow buyPriceMarginal \<or> gt buyPriceLow buyPriceHigh
         \<or> gt buyPriceMarginal buyPriceHigh \<or> gt sellPriceLow sellPriceMarginal
         \<or> gt sellPriceLow sellPriceHigh \<or> gt sellPriceMarginal sellPriceHigh
      then Inl (Error
        ''low/marginal price must be lower than or equal to marginal/high price'')
      else if isNegative buyBudget \<or> isNegative sellBudget
      then Inl (Error ''budgets cannot be negative'')
      else
        (let orders = createOrders baseDecimals quoteDecimals
                        buyPriceLow buyPriceMarginal buyPriceHigh buyBudget
                        sellPriceLow sellPriceMarginal sellPriceHigh sellBudget
         in Inr \<lparr>order0 = order0 orders, order1 = order1 orders,
                  token0 = baseToken, token1 = quoteToken\<rparr>))"

text \<open>The error kinds of the order builder, by the message each one carries.\<close>

abbreviation InvalidPrice :: error where
  "InvalidPrice \<equiv> Error ''prices cannot be negative''"

abbreviation InvalidPriceOrdering :: error where
  "InvalidPriceOrdering \<equiv>
     Error ''low/marginal price must be lower than or equal to marginal/high price''"

abbreviation InvalidBudget :: error where
  "InvalidBudget \<equiv> Error ''budgets cannot be negative''"

text \<open>
  The invariant of a decoded order: its three rates are finite and
  \<open>lowestRate \<le> marginalRate \<le> highestRate\<close>.
\<close>

definition rates_ordered :: "DecodedOrder \<Rightarrow> bool" where
  "rates_ordered ord =
     (case (lowestRate ord, marginalRate ord, highestRate ord) of
        (Fin l, Fin m, Fin h) \<Rightarrow> l \<le> m \<and> m \<le> h
      | _ \<Rightarrow> False)"

section \<open>Fees\<close>

definition PPM_RESOLUTION :: int where
  "PPM_RESOLUTION = 1000000"

definition addFee :: "decimal \<Rightarrow> int \<Rightarrow> decimal" where
  "addFee amount tradingFeePPM =
     ceil (div_dec (times_dec amount (Fin (of_int PPM_RESOLUTION)))
                   (Fin (of_int (PPM_RESOLUTION - tradingFeePPM))))"

definition subtractFee :: "decimal \<Rightarrow> int \<Rightarrow> decimal" where
  "subtractFee amount tradingFeePPM =
     floor_dec (div_dec (times_dec amount (Fin (of_int (PPM_RESOLUTION - tradingFeePPM))))
                        (Fin (of_int PPM_RESOLUTION)))"

section \<open>The overlapping distribution\<close>

record OverlappingDistributionResult =
  res_buyPriceHigh :: decimal
  res_buyPriceMarginal :: decimal
  res_sellPriceLow :: decimal
  res_sellPriceMarginal :: decimal
  res_sellBudget :: decimal

definition calculateOverlappingDistribution ::
  "nat \<Rightarrow> nat \<Rightarrow> decimal \<Rightarrow> decimal \<Rightarrow> decimal \<Rightarrow> decimal \<Rightarrow> decimal
     \<Rightarrow> OverlappingDistributionResult" where
  "calculateOverlappingDistribution baseTokenDecimals quoteTokenDecimals
       buyPriceLow sellPriceHigh marketPrice spreadPercentage buyBudget =
     (let totalPriceRange = minus_dec sellPriceHigh buyPriceLow;
          spread = div_dec (times_dec totalPriceRange spreadPercentage) (Fin 100);
          buyPriceHigh = minus_dec sellPriceHigh spread;
          sellPriceLow = plus_dec buyPriceLow spread;
          buyPriceRange = minus_dec buyPriceHigh buyPriceLow;
          sellPriceRange = minus_dec sellPriceHigh sellPriceLow;
          buyLowRange =
            minus_dec (minus_dec marketPrice buyPriceLow) (div_dec spread (Fin 2));
          buyLowBudgetRatio = div_dec buyLowRange buyPriceRange;
          buyOrderYint = div_dec buyBudget buyLowBudgetRatio;
          buyPriceMarginal = plus_dec buyPriceLow (times_dec buyPriceRange buyLowBudgetRatio);
          geoMean = sqrt_dec (times_dec buyPriceLow sellPriceHigh);
          sellOrderYint = div_dec buyOrderYint geoMean;
          sellHighBudgetRatio = minus_dec (Fin 1) buyLowBudgetRatio;
          sellBudget = times_dec sellOrderYint sellHighBudgetRatio;
          sellPriceMarginal =
            minus_dec sellPriceHigh (times_dec sellPriceRange sellHighBudgetRatio)
      in \<lparr>res_buyPriceHigh = trimDecimal buyPriceHigh quoteTokenDecimals,
          res_buyPriceMarginal = trimDecimal buyPriceMarginal quoteTokenDecimals,
          res_sellPriceLow = trimDecimal sellPriceLow quoteTokenDecimals,
          res_sellPriceMarginal = trimDecimal sellPriceMarginal quoteTokenDecimals,
          res_sellBudget = trimDecimal sellBudget baseTokenDecimals\<rparr>)"

text \<open>
  The reference algorithm of the specification, step by step over the real numbers, with its
  five outputs cut to the decimals of the quote token (the prices) and of the base token (the
  budget). It is the algorithm that \<open>calculateOverlappingDistribution\<close> is compared with.
\<close>

definition reference_distribution ::
  "nat \<Rightarrow> nat \<Rightarrow> real \<Rightarrow> real \<Rightarrow> real \<Rightarrow> real \<Rightarrow> real \<Rightarrow> OverlappingDistributionResult" where
  "reference_distribution baseTokenDecimals quoteTokenDecimals
       buyPriceLow sellPriceHigh marketPrice spreadPercentage buyBudget =
     (let spread = (sellPriceHigh - buyPriceLow) * spreadPercentage / 100;
          buyPriceHigh = sellPriceHigh - spread;
          sellPriceLow = buyPriceLow + spread;
          buyLowBudgetRatio =
            (marketPrice - buyPriceLow - spread / 2) / (buyPriceHigh - buyPriceLow);
          buyPriceMarginal = buyPriceLow + (buyPriceHigh - buyPriceLow) * buyLowBudgetRatio;
          sellBudget = (buyBudget / buyLowBudgetRatio) / sqrt (buyPriceLow * sellPriceHigh)
                         * (1 - buyLowBudgetRatio);
          sellPriceMarginal =
            sellPriceHigh - (sellPriceHigh - sellPriceLow) * (1 - buyLowBudgetRatio)
      in \<lparr>res_buyPriceHigh = Fin (truncate_places quoteTokenDecimals buyPriceHigh),
          res_buyPriceMarginal = Fin (truncate_places quoteTokenDecimals buyPriceMarginal),
          res_sellPriceLow = Fin (truncate_places quoteTokenDecimals sellPriceLow),
          res_sellPriceMarginal = Fin (truncate_places quoteTokenDecimals sellPriceMarginal),
          res_sellBudget = Fin (truncate_places baseTokenDecimals sellBudget)\<rparr>)"

section \<open>Rounding to the working precision\<close>

text \<open>
  The operations above are the exact ones. The \<open>Decimal\<close> class itself keeps a finite number
  of significant digits: the result of a sum, a difference, a product, a quotient or a square
  root is rounded to the working precision, in the rounding mode of the configuration; a
  constructor and the conversion to a string round nothing. The two settings belong to the
  numerics module, which is not part of the sources at hand, so the working precision and the
  rounding mode are parameters of everything below. The rounding modes are the nine of the
  class.

  \<open>round_magnitude\<close> rounds the scaled magnitude of a value to an integer; the sign of the
  value decides the direction of the modes that round towards an infinity.
  \<open>round_digits mode precision x\<close> is \<open>x\<close> rounded to \<open>precision\<close> significant
  digits: with \<open>exponent10 x\<close> the decimal exponent of the leading digit, the magnitude is
  scaled to an integer part of \<open>precision\<close> digits, rounded, and scaled back.
\<close>

datatype rounding =
  ROUND_UP | ROUND_DOWN | ROUND_CEIL | ROUND_FLOOR
  | ROUND_HALF_UP | ROUND_HALF_DOWN | ROUND_HALF_EVEN | ROUND_HALF_CEIL | ROUND_HALF_FLOOR

fun round_magnitude :: "rounding \<Rightarrow> bool \<Rightarrow> real \<Rightarrow> int" where
  "round_magnitude ROUND_UP negative s = \<lceil>s\<rceil>"
| "round_magnitude ROUND_DOWN negative s = \<lfloor>s\<rfloor>"
| "round_magnitude ROUND_CEIL negative s = (if negative then \<lfloor>s\<rfloor> else \<lceil>s\<rceil>)"
| "round_magnitude ROUND_FLOOR negative s = (if negative then \<lceil>s\<rceil> else \<lfloor>s\<rfloor>)"
| "round_magnitude ROUND_HALF_UP negative s = \<lfloor>s + 1 / 2\<rfloor>"
| "round_magnitude ROUND_HALF_DOWN negative s = \<lceil>s - 1 / 2\<rceil>"
| "round_magnitude ROUND_HALF_EVEN negative s =
     (if s - of_int \<lfloor>s\<rfloor> = 1 / 2 then (if even \<lfloor>s\<rfloor> then \<lfloor>s\<rfloor> else \<lfloor>s\<rfloor> + 1)
      else \<lfloor>s + 1 / 2\<rfloor>)"
| "round_magnitude ROUND_HALF_CEIL negative s =
     (if negative then \<lceil>s - 1 / 2\<rceil> else \<lfloor>s + 1 / 2\<rfloor>)"
| "round_magnitude ROUND_HALF_FLOOR negative s =
     (if negative then \<lfloor>s + 1 / 2\<rfloor> else \<lceil>s - 1 / 2\<rceil>)"

definition exponent10 :: "real \<Rightarrow> int" where
  "exponent10 x = \<lfloor>log 10 \<bar>x\<bar>\<rfloor>"

definition round_digits :: "rounding \<Rightarrow> nat \<Rightarrow> real \<Rightarrow> real" where
  "round_digits mode precision x =
     (if x = 0 then 0
      else sgn x
           * of_int (round_magnitude mode (x < 0)
                       (\<bar>x\<bar> * 10 powi (int precision - 1 - exponent10 x)))
           * 10 powi (exponent10 x + 1 - int precision))"

text \<open>
  An operation of the class is the exact operation followed by the rounding of a finite
  result; infinite and undefined results pass unchanged.
\<close>

fun rounded :: "rounding \<Rightarrow> nat \<Rightarrow> decimal \<Rightarrow> decimal" where
  "rounded mode precision (Fin x) = Fin (round_digits mode precision x)"
| "rounded mode precision d = d"



definition times_rounded :: "rounding \<Rightarrow> nat \<Rightarrow> decimal \<Rightarrow> decimal \<Rightarrow> decimal" where
  "times_rounded mode precision x y = rounded mode precision (times_dec x y)"

definition div_rounded :: "rounding \<Rightarrow> nat \<Rightarrow> decimal \<Rightarrow> decimal \<Rightarrow> decimal" where
  "div_rounded mode precision x y = rounded mode precision (div_dec x y)"


text \<open>
  The utilities with every operation of the \<open>Decimal\<close> class rounded. Each one is the
  function of the same name in the sources, the two settings in front of its arguments. The
  helpers \<open>parseUnits\<close>, \<open>formatUnits\<close> and \<open>trimDecimal\<close> shift and cut decimal
  strings and round nothing.

  \<open>parseStrategy\<close> awaits the decimals resolver twice; a failed lookup aborts the call with
  the resolver's error. The resolver and the conversion of the encoded strategy to strings are
  parameters.
\<close>

definition normalizeRate_rounded ::
  "rounding \<Rightarrow> nat \<Rightarrow> decimal \<Rightarrow> nat \<Rightarrow> nat \<Rightarrow> decimal" where
  "normalizeRate_rounded mode precision amount amountTokenDecimals otherTokenDecimals =
     times_rounded mode precision amount (tenPow amountTokenDecimals otherTokenDecimals)"

definition normalizeInvertedRate_rounded ::
  "rounding \<Rightarrow> nat \<Rightarrow> decimal \<Rightarrow> nat \<Rightarrow> nat \<Rightarrow> decimal" where
  "normalizeInvertedRate_rounded mode precision amount amountTokenDecimals otherTokenDecimals =
     (if number_is_zero amount then Fin 0
      else times_rounded mode precision (div_rounded mode precision (Fin 1) amount)
             (tenPow otherTokenDecimals amountTokenDecimals))"

definition parseStrategy_rounded ::
  "rounding \<Rightarrow> nat \<Rightarrow> ('e \<Rightarrow> 's) \<Rightarrow> (string \<Rightarrow> error + nat)
     \<Rightarrow> (DecodedOrder, 'e) with_encoded \<Rightarrow> error + 's Strategy" where
  "parseStrategy_rounded mode precision encodedStrategyBNToStr fetchDecimals strategy =
     (case fetchDecimals (token0 strategy) of
        Inl e \<Rightarrow> Inl e
      | Inr decimals0 \<Rightarrow>
     (case fetchDecimals (token1 strategy) of
        Inl e \<Rightarrow> Inl e
      | Inr decimals1 \<Rightarrow>
          Inr \<lparr>str_id = strategy_id strategy,
               str_baseToken = token0 strategy,
               str_quoteToken = token1 strategy,
               str_buyPriceLow = normalizeRate_rounded mode precision
                 (lowestRate (order1 strategy)) decimals0 decimals1,
               str_buyPriceMarginal = normalizeRate_rounded mode precision
                 (marginalRate (order1 strategy)) decimals0 decimals1,
               str_buyPriceHigh = normalizeRate_rounded mode precision
                 (highestRate (order1 strategy)) decimals0 decimals1,
               str_buyBudget = formatUnits (liquidity (order1 strategy)) decimals1,
               str_sellPriceLow = normalizeInvertedRate_rounded mode precision
                 (highestRate (order0 strategy)) decimals1 decimals0,
               str_sellPriceMarginal = normalizeInvertedRate_rounded mode precision
                 (marginalRate (order0 strategy)) decimals1 decimals0,
               str_sellPriceHigh = normalizeInvertedRate_rounded mode precision
                 (lowestRate (order0 strategy)) decimals1 decimals0,
               str_sellBudget = formatUnits (liquidity (order0 strategy)) decimals0,
               str_encoded = encodedStrategyBNToStr (encoded strategy)\<rparr>))"

definition createOrders_rounded ::
  "rounding \<Rightarrow> nat \<Rightarrow> nat \<Rightarrow> nat \<Rightarrow> decimal \<Rightarrow> decimal \<Rightarrow> decimal \<Rightarrow> decimal
     \<Rightarrow> decimal \<Rightarrow> decimal \<Rightarrow> decimal \<Rightarrow> decimal \<Rightarrow> DecodedOrder order_pair" where
  "createOrders_rounded mode precision baseTokenDecimals quoteTokenDecimals
       buyPriceLow buyPriceMarginal buyPriceHigh buyBudget
       sellPriceLow sellPriceMarginal sellPriceHigh sellBudget =
     (let liquidity0 = parseUnits sellBudget baseTokenDecimals;
          lowestRate0 = normalizeInvertedRate_rounded mode precision
                          sellPriceHigh quoteTokenDecimals baseTokenDecimals;
          marginalRate0 = normalizeInvertedRate_rounded mode precision
                          sellPriceMarginal quoteTokenDecimals baseTokenDecimals;
          highestRate0 = normalizeInvertedRate_rounded mode precision
                          sellPriceLow quoteTokenDecimals baseTokenDecimals;
          liquidity1 = parseUnits buyBudget quoteTokenDecimals;
          lowestRate1 = normalizeRate_rounded mode precision
                          buyPriceLow quoteTokenDecimals baseTokenDecimals;
          marginalRate1 = normalizeRate_rounded mode precision
                          buyPriceMarginal quoteTokenDecimals baseTokenDecimals;
          highestRate1 = normalizeRate_rounded mode precision
                          buyPriceHigh quoteTokenDecimals baseTokenDecimals
      in \<lparr>order0 = \<lparr>liquidity = liquidity0, lowestRate = lowestRate0,
                      highestRate = highestRate0, marginalRate = marginalRate0\<rparr>,
          order1 = \<lparr>liquidity = liquidity1, lowestRate = lowestRate1,
                      highestRate = highestRate1, marginalRate = marginalRate1\<rparr>\<rparr>)"

definition buildStrategyObject_rounded ::
  "rounding \<Rightarrow> nat \<Rightarrow> string \<Rightarrow> string \<Rightarrow> nat \<Rightarrow> nat
     \<Rightarrow> decimal \<Rightarrow> decimal \<Rightarrow> decimal \<Rightarrow> decimal
     \<Rightarrow> decimal \<Rightarrow> decimal \<Rightarrow> decimal \<Rightarrow> decimal
     \<Rightarrow> error + DecodedOrder strategy_orders" where
  "buildStrategyObject_rounded mode precision baseToken quoteToken baseDecimals quoteDecimals
       buyPriceLow buyPriceMarginal buyPriceHigh buyBudget
       sellPriceLow sellPriceMarginal sellPriceHigh sellBudget =
     (if isNegative buyPriceLow \<or> isNegative buyPriceMarginal \<or> isNegative buyPriceHigh
         \<or> isNegative sellPriceLow \<or> isNegative sellPriceMarginal
         \<or> isNegative sellPriceHigh
      then Inl (Error ''prices cannot be negative'')
      else if gt buyPriceLow buyPriceMarginal \<or> gt buyPriceLow buyPriceHigh
         \<or> gt buyPriceMarginal buyPriceHigh \<or> gt sellPriceLow sellPriceMarginal
         \<or> gt sellPriceLow sellPriceHigh \<or> gt sellPriceMarginal sellPriceHigh
      then Inl (Error
        ''low/marginal price must be lower than or equal to marginal/high price'')
      else if isNegative buyBudget \<or> isNegative sellBudget
      then Inl (Error ''budgets cannot be negative'')
      else
        (let orders = createOrders_rounded mode precision baseDecimals quoteDecimals
                        buyPriceLow buyPriceMarginal buyPriceHigh buyBudget
                        sellPriceLow sellPriceMarginal sellPriceHigh sellBudget
         in Inr \<lparr>order0 = order0 orders, order1 = order1 orders,
                  token0 = baseToken, token1 = quoteToken\<rparr>))"






section \<open>A strategy built, stored and parsed back\<close>

text \<open>
  The contract keeps an encoded strategy under an id. Building a strategy from human values,
  encoding it, storing it, decoding it and parsing it gives the human view back; the codec,
  the conversion of the encoded strategy to strings and the decimals resolver are parameters.
\<close>

definition stored_strategy :: "int \<Rightarrow> 'o strategy_orders \<Rightarrow> 'o EncodedStrategy" where
  "stored_strategy sid strategy =
     \<lparr>order0 = order0 strategy, order1 = order1 strategy,
      token0 = token0 strategy, token1 = token1 strategy, strategy_id = sid\<rparr>"

definition build_and_parse_rounded ::
  "rounding \<Rightarrow> nat \<Rightarrow> (DecodedOrder \<Rightarrow> 'eo) \<Rightarrow> ('eo \<Rightarrow> DecodedOrder)
     \<Rightarrow> ('eo EncodedStrategy \<Rightarrow> 's)
     \<Rightarrow> (string \<Rightarrow> error + nat) \<Rightarrow> int \<Rightarrow> string \<Rightarrow> string \<Rightarrow> nat \<Rightarrow> nat
     \<Rightarrow> decimal \<Rightarrow> decimal \<Rightarrow> decimal \<Rightarrow> decimal
     \<Rightarrow> decimal \<Rightarrow> decimal \<Rightarrow> decimal \<Rightarrow> decimal \<Rightarrow> error + 's Strategy" where
  "build_and_parse_rounded mode precision encodeOrder decodeOrder encodedStrategyBNToStr
       fetchDecimals sid baseToken quoteToken baseDecimals quoteDecimals
       buyPriceLow buyPriceMarginal buyPriceHigh buyBudget
       sellPriceLow sellPriceMarginal sellPriceHigh sellBudget =
     (case buildStrategyObject_rounded mode precision
             baseToken quoteToken baseDecimals quoteDecimals
             buyPriceLow buyPriceMarginal buyPriceHigh buyBudget
             sellPriceLow sellPriceMarginal sellPriceHigh sellBudget of
        Inl e \<Rightarrow> Inl e
      | Inr strategy \<Rightarrow>
          parseStrategy_rounded mode precision encodedStrategyBNToStr fetchDecimals
            (decodeStrategy decodeOrder
               (stored_strategy sid (encodeStrategy encodeOrder strategy))))"

text \<open>
  A decimals resolver that knows the two tokens of one strategy and fails on any other
  address.
\<close>

definition known_decimals :: "string \<Rightarrow> nat \<Rightarrow> string \<Rightarrow> nat \<Rightarrow> string \<Rightarrow> error + nat" where
  "known_decimals baseToken baseDecimals quoteToken quoteDecimals token =
     (if token = baseToken then Inr baseDecimals
      else if token = quoteToken then Inr quoteDecimals
      else Inl (Error ''lookup error''))"

section \<open>The zero guard and the rates\<close>

lemma tenPow_Fin:
  obtains t where "tenPow dec0 dec1 = Fin t" and "0 < t"
  by (simp add: tenPow_def)

lemma tenPow_inverse:
  assumes "tenPow dec0 dec1 = Fin t" and "tenPow dec1 dec0 = Fin u"
  shows "t * u = 1"
  using assms by (cases "dec0 = dec1") (auto simp: tenPow_def split: if_splits)

lemma underflow_bound_pos: "0 < underflow_bound"
  unfolding underflow_bound_def by (rule divide_pos_pos [OF zero_less_one zero_less_power]) simp

lemma underflow_bound_small: "underflow_bound < 1 / 10 ^ 20"
proof -
  have "(10::real) ^ 20 < 2 ^ 70" by simp
  also have "(2::real) ^ 70 \<le> 2 ^ 1075" by (rule power_increasing) simp_all
  finally have lt: "(10::real) ^ 20 < 2 ^ 1075" .
  have p: "(0::real) < 10 ^ 20" by (rule zero_less_power) simp
  show ?thesis unfolding underflow_bound_def
    by (rule divide_strict_left_mono [OF lt zero_less_one mult_pos_pos [OF less_trans [OF p lt] p]])
qed

lemma tiny_below_underflow_bound: "1 / 10 ^ 400 \<le> underflow_bound"
proof -
  have m: "(1075::nat) = 43 * 25" "(400::nat) = 16 * 25" by simp_all
  have "((2::real) ^ 43) ^ 25 \<le> (10 ^ 16) ^ 25" by (rule power_mono) simp_all
  then have le: "(2::real) ^ 1075 \<le> 10 ^ 400" unfolding m power_mult .
  have p: "(0::real) < 2 ^ 1075" by (rule zero_less_power) simp
  show ?thesis unfolding underflow_bound_def by (rule frac_le [OF _ _ p le]) simp_all
qed

lemma number_is_zero_0: "number_is_zero (Fin 0)"
  using underflow_bound_pos by simp

lemma not_number_is_zero_ge:
  "1 / 10 ^ 20 \<le> \<bar>x\<bar> \<Longrightarrow> \<not> number_is_zero (Fin x)"
  using underflow_bound_small by simp

lemma normalizeRate_Fin:
  "normalizeRate (Fin x) dec0 dec1 =
     Fin (x * (if dec1 \<le> dec0 then 10 ^ (dec0 - dec1) else 1 / 10 ^ (dec1 - dec0)))"
  by (simp add: normalizeRate_def tenPow_def)

lemma normalizeInvertedRate_Fin:
  "\<not> number_is_zero (Fin x) \<Longrightarrow>
   normalizeInvertedRate (Fin x) dec0 dec1 =
     Fin (1 / x * (if dec0 \<le> dec1 then 10 ^ (dec1 - dec0) else 1 / 10 ^ (dec0 - dec1)))"
  using underflow_bound_pos by (auto simp add: normalizeInvertedRate_def tenPow_def)

lemma normalizeInvertedRate_zero: "normalizeInvertedRate (Fin 0) dec0 dec1 = Fin 0"
  by (simp add: normalizeInvertedRate_def number_is_zero_0 del: number_is_zero.simps)

text \<open>
  Claim C9. \<open>normalizeRate\<close> multiplies by ten to the difference of the decimals
  (\<open>normalizeRate_Fin\<close>), and the inverted form of zero is zero
  (\<open>normalizeInvertedRate_zero\<close>). The inverted form of a nonzero amount is claimed to
  be the normalised reciprocal, but the zero guard tests the amount after its conversion to a
  double: for the nonzero amount \<open>1e-400\<close>, which underflows to zero, the result is
  \<open>0\<close> where the normalised reciprocal is \<open>1e400\<close>.
\<close>

theorem normalizeInvertedRate_tiny_amount:
  "normalizeInvertedRate (Fin (1 / 10 ^ 400)) 18 18 = Fin 0
   \<and> normalizeRate (div_dec (Fin 1) (Fin (1 / 10 ^ 400))) 18 18 = Fin (10 ^ 400)
   \<and> (1::real) / 10 ^ 400 \<noteq> 0"
proof -
  define y :: real where "y = 10 ^ 400"
  have y: "0 < y" unfolding y_def by (rule zero_less_power) simp
  have small: "1 / y \<le> underflow_bound"
    unfolding y_def by (rule tiny_below_underflow_bound)
  from y have "\<bar>1 / y\<bar> = 1 / y" by simp
  with small have zero: "number_is_zero (Fin (1 / y))" by simp
  have ten: "tenPow 18 18 = Fin 1" by (simp add: tenPow_def)
  from zero have a: "normalizeInvertedRate (Fin (1 / y)) 18 18 = Fin 0"
    by (simp only: normalizeInvertedRate_def if_True)
  from y have b: "normalizeRate (div_dec (Fin 1) (Fin (1 / y))) 18 18 = Fin y"
    by (simp add: normalizeRate_def ten)
  from y have c: "1 / y \<noteq> 0" by simp
  from a b c show ?thesis unfolding y_def by (intro conjI)
qed

section \<open>The two orders\<close>

lemma parseUnits_Fin:
  "parseUnits (Fin x) decimals = Fin (truncate_places 0 (x * 10 ^ decimals))"
  by (simp add: parseUnits_def)

lemma order1_rates_ordered:
  assumes "bpl \<le> bpm" and "bpm \<le> bph"
  shows "rates_ordered \<lparr>liquidity = l, lowestRate = normalizeRate (Fin bpl) q b,
           highestRate = normalizeRate (Fin bph) q b,
           marginalRate = normalizeRate (Fin bpm) q b\<rparr>"
proof -
  obtain t where t: "tenPow q b = Fin t" "0 < t" by (rule tenPow_Fin)
  from assms t(2) have "bpl * t \<le> bpm * t" "bpm * t \<le> bph * t"
    by (simp_all add: mult_right_mono)
  then show ?thesis by (simp add: rates_ordered_def normalizeRate_def t(1))
qed

lemma order0_rates_ordered:
  assumes "spl \<le> spm" and "spm \<le> sph" and "0 \<le> spl" and "\<not> number_is_zero (Fin spl)"
  shows "rates_ordered \<lparr>liquidity = l, lowestRate = normalizeInvertedRate (Fin sph) q b,
           highestRate = normalizeInvertedRate (Fin spl) q b,
           marginalRate = normalizeInvertedRate (Fin spm) q b\<rparr>"
proof -
  obtain t where t: "tenPow b q = Fin t" "0 < t" by (rule tenPow_Fin)
  from assms(3,4) have lo: "underflow_bound < spl" by simp
  then have pos: "0 < spl" by (rule less_trans [OF underflow_bound_pos])
  from lo assms(1,2) have nz: "\<not> number_is_zero (Fin spm)" "\<not> number_is_zero (Fin sph)"
    by simp_all
  from pos assms(1,2) have "1 / sph \<le> 1 / spm" "1 / spm \<le> 1 / spl"
    by (simp_all add: frac_le)
  with t(2) have "1 / sph * t \<le> 1 / spm * t" "1 / spm * t \<le> 1 / spl * t"
    by (auto intro: mult_right_mono simp del: times_divide_eq_left)
  moreover from pos assms(1,2) have "spl \<noteq> 0" "spm \<noteq> 0" "sph \<noteq> 0" by simp_all
  ultimately show ?thesis
    using assms(4) nz by (simp add: rates_ordered_def normalizeInvertedRate_def t(1))
qed

lemma error_kinds_distinct:
  "InvalidPrice \<noteq> InvalidPriceOrdering" "InvalidPrice \<noteq> InvalidBudget"
  "InvalidPriceOrdering \<noteq> InvalidBudget"
  by simp_all

lemma validation_chain:
  assumes "e1 \<noteq> e2" and "e1 \<noteq> e3" and "e2 \<noteq> e3"
    and "r = (if p1 then Inl e1 else if p2 then Inl e2 else if p3 then Inl e3 else Inr v)"
  shows "r = Inl e1 \<longleftrightarrow> p1" and "r = Inl e2 \<longleftrightarrow> \<not> p1 \<and> p2"
    and "r = Inl e3 \<longleftrightarrow> \<not> p1 \<and> \<not> p2 \<and> p3"
    and "\<not> p1 \<Longrightarrow> \<not> p2 \<Longrightarrow> \<not> p3 \<Longrightarrow> r = Inr v"
  using assms by (auto split: if_splits)

lemma buildStrategyObject_Fin:
  "buildStrategyObject baseToken quoteToken baseDecimals quoteDecimals
       (Fin buyPriceLow) (Fin buyPriceMarginal) (Fin buyPriceHigh) (Fin buyBudget)
       (Fin sellPriceLow) (Fin sellPriceMarginal) (Fin sellPriceHigh) (Fin sellBudget) =
     (if buyPriceLow < 0 \<or> buyPriceMarginal < 0 \<or> buyPriceHigh < 0
         \<or> sellPriceLow < 0 \<or> sellPriceMarginal < 0 \<or> sellPriceHigh < 0
      then Inl InvalidPrice
      else if buyPriceMarginal < buyPriceLow \<or> buyPriceHigh < buyPriceLow
         \<or> buyPriceHigh < buyPriceMarginal \<or> sellPriceMarginal < sellPriceLow
         \<or> sellPriceHigh < sellPriceLow \<or> sellPriceHigh < sellPriceMarginal
      then Inl InvalidPriceOrdering
      else if buyBudget < 0 \<or> sellBudget < 0
      then Inl InvalidBudget
      else Inr \<lparr>order0 = order0 (createOrders baseDecimals quoteDecimals
              (Fin buyPriceLow) (Fin buyPriceMarginal) (Fin buyPriceHigh) (Fin buyBudget)
              (Fin sellPriceLow) (Fin sellPriceMarginal) (Fin sellPriceHigh) (Fin sellBudget)),
            order1 = order1 (createOrders baseDecimals quoteDecimals
              (Fin buyPriceLow) (Fin buyPriceMarginal) (Fin buyPriceHigh) (Fin buyBudget)
              (Fin sellPriceLow) (Fin sellPriceMarginal) (Fin sellPriceHigh) (Fin sellBudget)),
            token0 = baseToken, token1 = quoteToken\<rparr>)"
  unfolding buildStrategyObject_def Let_def isNegative.simps gt.simps ..

text \<open>
  Claim C10. \<open>createOrders\<close> computes the two orders independently: \<open>order1\<close>
  depends only on the buy-side arguments and the two decimals, \<open>order0\<close> only on the
  sell-side arguments and the two decimals.
\<close>

theorem createOrders_sides_independent:
  "order1 (createOrders baseTokenDecimals quoteTokenDecimals
             buyPriceLow buyPriceMarginal buyPriceHigh buyBudget
             sellPriceLow sellPriceMarginal sellPriceHigh sellBudget)
     = order1 (createOrders baseTokenDecimals quoteTokenDecimals
             buyPriceLow buyPriceMarginal buyPriceHigh buyBudget
             sellPriceLow' sellPriceMarginal' sellPriceHigh' sellBudget')
   \<and> order0 (createOrders baseTokenDecimals quoteTokenDecimals
             buyPriceLow buyPriceMarginal buyPriceHigh buyBudget
             sellPriceLow sellPriceMarginal sellPriceHigh sellBudget)
     = order0 (createOrders baseTokenDecimals quoteTokenDecimals
             buyPriceLow' buyPriceMarginal' buyPriceHigh' buyBudget'
             sellPriceLow sellPriceMarginal sellPriceHigh sellBudget)"
  by (simp add: createOrders_def)

theorem createOrders_sides_independent_witness:
  "order1 (createOrders 18 6 (Fin 1800) (Fin 1900) (Fin 2000) (Fin 1000)
            (Fin 2000) (Fin 2100) (Fin 2200) (Fin (1 / 2)))
     = order1 (createOrders 18 6 (Fin 1800) (Fin 1900) (Fin 2000) (Fin 1000)
            (Fin 3) (Fin 4) (Fin 5) (Fin 6))
   \<and> order0 (createOrders 18 6 (Fin 1800) (Fin 1900) (Fin 2000) (Fin 1000)
            (Fin 2000) (Fin 2100) (Fin 2200) (Fin (1 / 2)))
     = order0 (createOrders 18 6 (Fin 3) (Fin 4) (Fin 5) (Fin 6)
            (Fin 2000) (Fin 2100) (Fin 2200) (Fin (1 / 2)))"
  using createOrders_sides_independent [of 18 6 "Fin 1800" "Fin 1900" "Fin 2000" "Fin 1000"
      "Fin 2000" "Fin 2100" "Fin 2200" "Fin (1 / 2)" "Fin 3" "Fin 4" "Fin 5" "Fin 6"
      "Fin 3" "Fin 4" "Fin 5" "Fin 6"]
  by simp

text \<open>
  Claim C6. \<open>createOrders\<close> gives \<open>order0\<close> the sell budget in base units of the
  base token and the inverted rates of the sell prices, the high price as the lowest rate and
  the low price as the highest; it gives \<open>order1\<close> the buy budget in base units of the
  quote token and the normalised buy prices. With 18 and 6 decimals, a buy budget of 1000 and a
  sell budget of 0.5, the liquidities are 1000000000 and 500000000000000000.
\<close>

theorem createOrders_sides:
  "createOrders baseTokenDecimals quoteTokenDecimals
       (Fin buyPriceLow) (Fin buyPriceMarginal) (Fin buyPriceHigh) (Fin buyBudget)
       (Fin sellPriceLow) (Fin sellPriceMarginal) (Fin sellPriceHigh) (Fin sellBudget)
   = \<lparr>order0 =
        \<lparr>liquidity = Fin (truncate_places 0 (sellBudget * 10 ^ baseTokenDecimals)),
         lowestRate = normalizeInvertedRate (Fin sellPriceHigh) quoteTokenDecimals baseTokenDecimals,
         highestRate = normalizeInvertedRate (Fin sellPriceLow) quoteTokenDecimals baseTokenDecimals,
         marginalRate =
           normalizeInvertedRate (Fin sellPriceMarginal) quoteTokenDecimals baseTokenDecimals\<rparr>,
      order1 =
        \<lparr>liquidity = Fin (truncate_places 0 (buyBudget * 10 ^ quoteTokenDecimals)),
         lowestRate = normalizeRate (Fin buyPriceLow) quoteTokenDecimals baseTokenDecimals,
         highestRate = normalizeRate (Fin buyPriceHigh) quoteTokenDecimals baseTokenDecimals,
         marginalRate = normalizeRate (Fin buyPriceMarginal) quoteTokenDecimals baseTokenDecimals\<rparr>\<rparr>
   \<and> (\<exists>strategy.
        buildStrategyObject ''base'' ''quote'' 18 6
          (Fin 1800) (Fin 1900) (Fin 2000) (Fin 1000)
          (Fin 2000) (Fin 2100) (Fin 2200) (Fin (1 / 2)) = Inr strategy
        \<and> liquidity (order1 strategy) = Fin 1000000000
        \<and> liquidity (order0 strategy) = Fin 500000000000000000)"
  by (simp add: createOrders_def parseUnits_Fin buildStrategyObject_Fin truncate_places_def)

theorem createOrders_sides_witness:
  "order1 (createOrders 18 6 (Fin 1800) (Fin 1900) (Fin 2000) (Fin 1000)
            (Fin 2000) (Fin 2100) (Fin 2200) (Fin (1 / 2)))
     = \<lparr>liquidity = Fin 1000000000, lowestRate = Fin (1800 / 10 ^ 12),
         highestRate = Fin (2000 / 10 ^ 12), marginalRate = Fin (1900 / 10 ^ 12)\<rparr>
   \<and> order0 (createOrders 18 6 (Fin 1800) (Fin 1900) (Fin 2000) (Fin 1000)
            (Fin 2000) (Fin 2100) (Fin 2200) (Fin (1 / 2)))
     = \<lparr>liquidity = Fin 500000000000000000, lowestRate = Fin (10 ^ 12 / 2200),
         highestRate = Fin (10 ^ 12 / 2000), marginalRate = Fin (10 ^ 12 / 2100)\<rparr>"
proof -
  have nz: "\<not> number_is_zero (Fin 2000)" "\<not> number_is_zero (Fin 2100)"
    "\<not> number_is_zero (Fin 2200)"
    by (rule not_number_is_zero_ge, simp)+
  show ?thesis
    using createOrders_sides [of 18 6 1800 1900 2000 1000 2000 2100 2200 "1 / 2"]
    by (simp add: normalizeRate_Fin normalizeInvertedRate_Fin [OF nz(1)]
        normalizeInvertedRate_Fin [OF nz(2)] normalizeInvertedRate_Fin [OF nz(3)]
        truncate_places_def del: number_is_zero.simps)
qed

text \<open>
  Claim C2, amended. \<open>buildStrategyObject\<close> fails with the invalid price error iff some
  price is negative; with the invalid price ordering error iff no price is negative and some
  side has low above marginal, marginal above high or low above high; with the invalid budget
  error iff the prices pass both checks and some budget is negative. Otherwise it succeeds,
  \<open>order1\<close> has \<open>lowestRate \<le> marginalRate \<le> highestRate\<close>, and so has
  \<open>order0\<close> provided the zero guard of the inverted rate does not take
  \<open>sellPriceLow\<close> for zero.
\<close>

theorem buildStrategyObject_validation:
  fixes buyPriceLow buyPriceMarginal buyPriceHigh buyBudget :: real
    and sellPriceLow sellPriceMarginal sellPriceHigh sellBudget :: real
  shows
  "(buildStrategyObject baseToken quoteToken baseDecimals quoteDecimals
       (Fin buyPriceLow) (Fin buyPriceMarginal) (Fin buyPriceHigh) (Fin buyBudget)
       (Fin sellPriceLow) (Fin sellPriceMarginal) (Fin sellPriceHigh) (Fin sellBudget)
      = Inl InvalidPrice
    \<longleftrightarrow> (buyPriceLow < 0 \<or> buyPriceMarginal < 0 \<or> buyPriceHigh < 0
         \<or> sellPriceLow < 0 \<or> sellPriceMarginal < 0 \<or> sellPriceHigh < 0))
   \<and> (buildStrategyObject baseToken quoteToken baseDecimals quoteDecimals
       (Fin buyPriceLow) (Fin buyPriceMarginal) (Fin buyPriceHigh) (Fin buyBudget)
       (Fin sellPriceLow) (Fin sellPriceMarginal) (Fin sellPriceHigh) (Fin sellBudget)
      = Inl InvalidPriceOrdering
    \<longleftrightarrow> (0 \<le> buyPriceLow \<and> 0 \<le> buyPriceMarginal \<and> 0 \<le> buyPriceHigh
         \<and> 0 \<le> sellPriceLow \<and> 0 \<le> sellPriceMarginal \<and> 0 \<le> sellPriceHigh)
        \<and> (buyPriceMarginal < buyPriceLow \<or> buyPriceHigh < buyPriceLow
         \<or> buyPriceHigh < buyPriceMarginal \<or> sellPriceMarginal < sellPriceLow
         \<or> sellPriceHigh < sellPriceLow \<or> sellPriceHigh < sellPriceMarginal))
   \<and> (buildStrategyObject baseToken quoteToken baseDecimals quoteDecimals
       (Fin buyPriceLow) (Fin buyPriceMarginal) (Fin buyPriceHigh) (Fin buyBudget)
       (Fin sellPriceLow) (Fin sellPriceMarginal) (Fin sellPriceHigh) (Fin sellBudget)
      = Inl InvalidBudget
    \<longleftrightarrow> (0 \<le> buyPriceLow \<and> buyPriceLow \<le> buyPriceMarginal
         \<and> buyPriceMarginal \<le> buyPriceHigh
         \<and> 0 \<le> sellPriceLow \<and> sellPriceLow \<le> sellPriceMarginal
         \<and> sellPriceMarginal \<le> sellPriceHigh)
        \<and> (buyBudget < 0 \<or> sellBudget < 0))
   \<and> (0 \<le> buyPriceLow \<and> buyPriceLow \<le> buyPriceMarginal
         \<and> buyPriceMarginal \<le> buyPriceHigh
         \<and> 0 \<le> sellPriceLow \<and> sellPriceLow \<le> sellPriceMarginal
         \<and> sellPriceMarginal \<le> sellPriceHigh
         \<and> 0 \<le> buyBudget \<and> 0 \<le> sellBudget
      \<longrightarrow> (\<exists>strategy.
            buildStrategyObject baseToken quoteToken baseDecimals quoteDecimals
              (Fin buyPriceLow) (Fin buyPriceMarginal) (Fin buyPriceHigh) (Fin buyBudget)
              (Fin sellPriceLow) (Fin sellPriceMarginal) (Fin sellPriceHigh) (Fin sellBudget)
              = Inr strategy
            \<and> rates_ordered (order1 strategy)
            \<and> (\<not> number_is_zero (Fin sellPriceLow) \<longrightarrow> rates_ordered (order0 strategy))))"
  (is "?P \<and> ?O \<and> ?B \<and> ?S")
proof -
  note build = buildStrategyObject_Fin [of baseToken quoteToken baseDecimals quoteDecimals
       buyPriceLow buyPriceMarginal buyPriceHigh buyBudget
       sellPriceLow sellPriceMarginal sellPriceHigh sellBudget]
  note chain = validation_chain [OF error_kinds_distinct build]
  have p: ?P by (rule chain(1))
  have o: ?O unfolding chain(2) by (simp only: not_less de_Morgan_disj) 
  have b: ?B unfolding chain(3) by (simp only: not_less de_Morgan_disj) (safe; linarith)
  have s: ?S
  proof (intro impI, elim conjE)
    assume v: "0 \<le> buyPriceLow" "buyPriceLow \<le> buyPriceMarginal"
      "buyPriceMarginal \<le> buyPriceHigh" "0 \<le> sellPriceLow"
      "sellPriceLow \<le> sellPriceMarginal" "sellPriceMarginal \<le> sellPriceHigh"
      "0 \<le> buyBudget" "0 \<le> sellBudget"
    let ?orders = "createOrders baseDecimals quoteDecimals
              (Fin buyPriceLow) (Fin buyPriceMarginal) (Fin buyPriceHigh) (Fin buyBudget)
              (Fin sellPriceLow) (Fin sellPriceMarginal) (Fin sellPriceHigh) (Fin sellBudget)"
    let ?s = "\<lparr>order0 = order0 ?orders, order1 = order1 ?orders,
               token0 = baseToken, token1 = quoteToken\<rparr>"
    from v have "buildStrategyObject baseToken quoteToken baseDecimals quoteDecimals
              (Fin buyPriceLow) (Fin buyPriceMarginal) (Fin buyPriceHigh) (Fin buyBudget)
              (Fin sellPriceLow) (Fin sellPriceMarginal) (Fin sellPriceHigh) (Fin sellBudget)
              = Inr ?s"
      by (intro chain(4)) (simp_all only: not_less de_Morgan_disj, simp_all)
    moreover from v have "rates_ordered (order1 ?s)"
      by (simp add: createOrders_def order1_rates_ordered)
    moreover from v have "\<not> number_is_zero (Fin sellPriceLow) \<longrightarrow> rates_ordered (order0 ?s)"
      by (simp add: createOrders_def order0_rates_ordered del: number_is_zero.simps)
    ultimately show "\<exists>strategy.
            buildStrategyObject baseToken quoteToken baseDecimals quoteDecimals
              (Fin buyPriceLow) (Fin buyPriceMarginal) (Fin buyPriceHigh) (Fin buyBudget)
              (Fin sellPriceLow) (Fin sellPriceMarginal) (Fin sellPriceHigh) (Fin sellBudget)
              = Inr strategy
            \<and> rates_ordered (order1 strategy)
            \<and> (\<not> number_is_zero (Fin sellPriceLow) \<longrightarrow> rates_ordered (order0 strategy))"
      by blast
  qed
  from p o b s show ?thesis by blast
qed

theorem buildStrategyObject_validation_witness:
  "(\<exists>strategy.
      buildStrategyObject ''base'' ''quote'' 18 6
        (Fin 1800) (Fin 1900) (Fin 2000) (Fin 1000)
        (Fin 2000) (Fin 2100) (Fin 2200) (Fin (1 / 2)) = Inr strategy
      \<and> rates_ordered (order1 strategy) \<and> rates_ordered (order0 strategy))
   \<and> buildStrategyObject ''base'' ''quote'' 18 6
        (Fin 1800) (Fin 1900) (Fin 2000) (Fin 1000)
        (Fin 2000) (Fin 2100) (Fin 2200) (Fin (1 / 2)) \<noteq> Inl InvalidPrice"
proof -
  have nz: "\<not> number_is_zero (Fin 2000)" by (rule not_number_is_zero_ge) simp
  show ?thesis
    using buildStrategyObject_validation [of "''base''" "''quote''" 18 6
        1800 1900 2000 1000 2000 2100 2200 "1 / 2"] nz
    by (simp del: number_is_zero.simps)
qed

text \<open>
  The claim as stated promises the ordering of both orders whenever validation passes. A sell
  range that starts at the price zero passes validation, and the inverted rate of zero is
  zero: the highest rate of \<open>order0\<close> is then below its lowest and marginal rates.
\<close>

theorem buildStrategyObject_zero_sell_price:
  "buildStrategyObject ''base'' ''quote'' 6 6
     (Fin 1) (Fin 1) (Fin 1) (Fin 1) (Fin 0) (Fin 1) (Fin 2) (Fin 1)
   = Inr \<lparr>order0 = \<lparr>liquidity = Fin 1000000, lowestRate = Fin (1 / 2),
                     highestRate = Fin 0, marginalRate = Fin 1\<rparr>,
          order1 = \<lparr>liquidity = Fin 1000000, lowestRate = Fin 1,
                     highestRate = Fin 1, marginalRate = Fin 1\<rparr>,
          token0 = ''base'', token1 = ''quote''\<rparr>
   \<and> \<not> rates_ordered \<lparr>liquidity = Fin 1000000, lowestRate = Fin (1 / 2),
                     highestRate = Fin 0, marginalRate = Fin 1\<rparr>"
proof -
  have nz: "\<not> number_is_zero (Fin 1)" "\<not> number_is_zero (Fin 2)"
    by (rule not_number_is_zero_ge, simp)+
  show ?thesis
    using nz number_is_zero_0
    by (simp add: buildStrategyObject_def createOrders_def normalizeInvertedRate_def
        normalizeRate_def tenPow_def parseUnits_def truncate_places_def rates_ordered_def
        del: number_is_zero.simps)
qed

section \<open>The rounding to significant digits\<close>

lemma round_magnitude_between:
  "\<lfloor>s\<rfloor> \<le> round_magnitude mode negative s \<and> round_magnitude mode negative s \<le> \<lceil>s\<rceil>"
proof -
  have a: "\<lfloor>s\<rfloor> \<le> \<lfloor>s + 1 / 2\<rfloor>" by (rule floor_mono) simp
  have b: "\<lfloor>s + 1 / 2\<rfloor> \<le> \<lceil>s\<rceil>" by linarith
  have c: "\<lfloor>s\<rfloor> \<le> \<lceil>s - 1 / 2\<rceil>" by linarith
  have d: "\<lceil>s - 1 / 2\<rceil> \<le> \<lceil>s\<rceil>" by (rule ceiling_mono) simp
  have e: "\<lfloor>s\<rfloor> \<le> \<lceil>s\<rceil>" by linarith
  have f: "s - of_int \<lfloor>s\<rfloor> = 1 / 2 \<Longrightarrow> \<lfloor>s\<rfloor> + 1 \<le> \<lceil>s\<rceil>" by linarith
  from a b c d e f show ?thesis by (cases mode) auto
qed

lemma round_magnitude_of_int: "round_magnitude mode negative (of_int n) = n"
  using round_magnitude_between [of "of_int n" mode negative] by simp

lemma ten_powr_int: "(10::real) powr of_int n = 10 powi n"
  by (simp add: powr_real_of_int')

lemma exponent10_bounds:
  assumes "x \<noteq> 0"
  shows "10 powi exponent10 x \<le> \<bar>x\<bar>" and "\<bar>x\<bar> < 10 powi (exponent10 x + 1)"
proof -
  from assms have a: "0 < \<bar>x\<bar>" by simp
  have "of_int (exponent10 x) \<le> log 10 \<bar>x\<bar>" unfolding exponent10_def by (rule of_int_floor_le)
  then have "10 powr of_int (exponent10 x) \<le> \<bar>x\<bar>" using a by (simp add: le_log_iff)
  then show "10 powi exponent10 x \<le> \<bar>x\<bar>" by (simp add: powr_real_of_int')
  have "log 10 \<bar>x\<bar> < of_int (exponent10 x + 1)" unfolding exponent10_def by linarith
  then have "\<bar>x\<bar> < 10 powr of_int (exponent10 x + 1)" using a by (simp add: log_less_iff)
  then show "\<bar>x\<bar> < 10 powi (exponent10 x + 1)"
    using ten_powr_int [of "exponent10 x + 1"] by simp
qed

lemma exponent10_eqI:
  assumes "10 powi e \<le> \<bar>x\<bar>" and "\<bar>x\<bar> < 10 powi (e + 1)"
  shows "exponent10 x = e"
proof -
  have p: "(0::real) < 10 powi e" by simp
  with assms(1) have a: "0 < \<bar>x\<bar>" by linarith
  from assms(1) have "10 powr of_int e \<le> \<bar>x\<bar>" by (simp add: powr_real_of_int')
  then have 1: "of_int e \<le> log 10 \<bar>x\<bar>" using a by (simp add: le_log_iff)
  from assms(2) have "\<bar>x\<bar> < 10 powr of_int (e + 1)"
    using ten_powr_int [of "e + 1"] by simp
  then have 2: "log 10 \<bar>x\<bar> < of_int e + 1" using a by (simp add: log_less_iff)
  from 1 2 show ?thesis unfolding exponent10_def by (simp add: floor_unique)
qed

lemma exponent10_scale:
  assumes "x \<noteq> 0"
  shows "exponent10 (x * 10 powi k) = exponent10 x + k"
proof (rule exponent10_eqI)
  note b = exponent10_bounds [OF assms]
  have p: "(0::real) < 10 powi k" by simp
  have s: "\<bar>x * 10 powi k\<bar> = \<bar>x\<bar> * 10 powi k" using p by (simp add: abs_mult)
  from b(1) p have "10 powi exponent10 x * 10 powi k \<le> \<bar>x\<bar> * 10 powi k"
    by (intro mult_right_mono) simp_all
  then show "10 powi (exponent10 x + k) \<le> \<bar>x * 10 powi k\<bar>"
    by (simp add: s power_int_add)
  from b(2) p have "\<bar>x\<bar> * 10 powi k < 10 powi (exponent10 x + 1) * 10 powi k"
    by (intro mult_strict_right_mono) simp_all
  then show "\<bar>x * 10 powi k\<bar> < 10 powi (exponent10 x + k + 1)"
    by (simp add: s power_int_add)
qed

lemma ten_powi_mult: "a + b = c \<Longrightarrow> (10::real) powi a * 10 powi b = 10 powi c"
  using power_int_add [of "10::real" a b] by simp

lemma scaled_magnitude_range:
  assumes "x \<noteq> 0"
  shows "10 powi (int precision - 1) \<le> \<bar>x\<bar> * 10 powi (int precision - 1 - exponent10 x)"
    and "\<bar>x\<bar> * 10 powi (int precision - 1 - exponent10 x) < 10 powi (int precision)"
proof -
  let ?k = "int precision - 1 - exponent10 x"
  note b = exponent10_bounds [OF assms]
  have p: "(0::real) < 10 powi ?k" by simp
  have "10 powi exponent10 x * 10 powi ?k \<le> \<bar>x\<bar> * 10 powi ?k"
    using b(1) p by (intro mult_right_mono) simp_all
  moreover have "(10::real) powi exponent10 x * 10 powi ?k = 10 powi (int precision - 1)"
    by (rule ten_powi_mult) simp
  ultimately show "10 powi (int precision - 1) \<le> \<bar>x\<bar> * 10 powi ?k" by simp
  have "\<bar>x\<bar> * 10 powi ?k < 10 powi (exponent10 x + 1) * 10 powi ?k"
    using b(2) p by (intro mult_strict_right_mono) simp_all
  moreover have "(10::real) powi (exponent10 x + 1) * 10 powi ?k = 10 powi (int precision)"
    by (rule ten_powi_mult) simp
  ultimately show "\<bar>x\<bar> * 10 powi ?k < 10 powi (int precision)" by simp
qed

lemma rounded_magnitude_range:
  assumes "x \<noteq> 0" and "0 < precision"
  shows "10 ^ (precision - 1)
           \<le> round_magnitude mode negative (\<bar>x\<bar> * 10 powi (int precision - 1 - exponent10 x))"
    and "round_magnitude mode negative (\<bar>x\<bar> * 10 powi (int precision - 1 - exponent10 x))
           \<le> 10 ^ precision"
proof -
  let ?s = "\<bar>x\<bar> * 10 powi (int precision - 1 - exponent10 x)"
  note r = scaled_magnitude_range [OF assms(1), of precision]
  note m = round_magnitude_between [of ?s mode negative]
  from assms(2) have "int precision - 1 = int (precision - 1)" by simp
  then have "(10::real) powi (int precision - 1) = 10 ^ (precision - 1)"
    by (simp only: power_int_of_nat)
  with r(1) have "of_int (10 ^ (precision - 1)) \<le> ?s" by simp
  then have "10 ^ (precision - 1) \<le> \<lfloor>?s\<rfloor>" by (simp only: le_floor_iff)
  with m show "10 ^ (precision - 1) \<le> round_magnitude mode negative ?s" by linarith
  from r(2) have "?s \<le> of_int (10 ^ precision)" by simp
  then have "\<lceil>?s\<rceil> \<le> 10 ^ precision" by (simp only: ceiling_le_iff)
  with m show "round_magnitude mode negative ?s \<le> 10 ^ precision" by linarith
qed

lemma round_digits_error:
  "\<bar>round_digits mode precision x - x\<bar> \<le> 10 powi (1 - int precision) * \<bar>x\<bar>"
proof (cases "x = 0")
  case True
  then show ?thesis by (simp add: round_digits_def)
next
  case False
  let ?e = "exponent10 x"
  let ?s = "\<bar>x\<bar> * 10 powi (int precision - 1 - ?e)"
  let ?n = "round_magnitude mode (x < 0) ?s"
  let ?u = "(10::real) powi (?e + 1 - int precision)"
  have u: "0 < ?u" by simp
  have "?s * ?u = \<bar>x\<bar> * (10 powi (int precision - 1 - ?e) * 10 powi (?e + 1 - int precision))"
    by simp
  also have "10 powi (int precision - 1 - ?e) * 10 powi (?e + 1 - int precision) = (1::real)"
    using ten_powi_mult [of "int precision - 1 - ?e" "?e + 1 - int precision" 0] by simp
  finally have su: "?s * ?u = \<bar>x\<bar>" by simp
  have x: "x = sgn x * (?s * ?u)" unfolding su by (simp add: sgn_mult_abs)
  have "round_digits mode precision x - x = sgn x * ((of_int ?n - ?s) * ?u)"
    using False by (subst (2) x) (simp add: round_digits_def algebra_simps)
  then have "\<bar>round_digits mode precision x - x\<bar> = \<bar>of_int ?n - ?s\<bar> * ?u"
    using False u by (simp add: abs_mult abs_sgn_eq)
  moreover have "\<bar>of_int ?n - ?s\<bar> \<le> 1"
    using round_magnitude_between [of ?s mode "x < 0"] by linarith
  ultimately have "\<bar>round_digits mode precision x - x\<bar> \<le> ?u"
    using u by (simp add: mult_left_le_one_le)
  also have "?u = 10 powi (1 - int precision) * 10 powi ?e"
    by (rule ten_powi_mult [symmetric]) simp
  also have "\<dots> \<le> 10 powi (1 - int precision) * \<bar>x\<bar>"
    using exponent10_bounds(1) [OF False] by (intro mult_left_mono) simp_all
  finally show ?thesis .
qed

lemma round_digits_scale:
  "round_digits mode precision (x * 10 powi k) = round_digits mode precision x * 10 powi k"
proof (cases "x = 0")
  case True
  then show ?thesis by (simp add: round_digits_def)
next
  case False
  have p: "(0::real) < 10 powi k" by simp
  then have nz: "x * 10 powi k \<noteq> 0" using False by simp
  have e: "exponent10 (x * 10 powi k) = exponent10 x + k" by (rule exponent10_scale [OF False])
  have sg: "sgn (x * 10 powi k) = sgn x" using p by (simp add: sgn_mult)
  from p have np: "\<not> (10::real) powi k < 0" by linarith
  have neg: "(x * 10 powi k < 0) = (x < 0)" using p np by (simp add: mult_less_0_iff)
  have "\<bar>x * 10 powi k\<bar> * 10 powi (int precision - 1 - (exponent10 x + k))
        = \<bar>x\<bar> * (10 powi k * 10 powi (int precision - 1 - (exponent10 x + k)))"
    using p by (simp add: abs_mult)
  also have "10 powi k * 10 powi (int precision - 1 - (exponent10 x + k))
        = (10::real) powi (int precision - 1 - exponent10 x)"
    by (rule ten_powi_mult) simp
  finally have s: "\<bar>x * 10 powi k\<bar> * 10 powi (int precision - 1 - (exponent10 x + k))
        = \<bar>x\<bar> * 10 powi (int precision - 1 - exponent10 x)" .
  have u: "(10::real) powi (exponent10 x + k + 1 - int precision)
        = 10 powi (exponent10 x + 1 - int precision) * 10 powi k"
    by (rule ten_powi_mult [symmetric]) simp
  show ?thesis
    using False nz by (simp only: round_digits_def e sg neg s u if_False mult.assoc)
qed

lemma round_digits_fixed:
  assumes "0 < precision" and "\<bar>y\<bar> = of_int m * 10 powi j"
    and "10 ^ (precision - 1) \<le> m" and "m < 10 ^ precision"
  shows "round_digits mode precision y = y"
proof -
  have t: "(0::real) < 10 powi j" by simp
  have "(0::int) < 10 ^ (precision - 1)" by simp
  with assms(3) have m: "0 < m" by linarith
  with assms(2) t have y: "y \<noteq> 0" by auto
  from assms(1) have "(10::real) powi (int precision - 1) = 10 ^ (precision - 1)"
    by (simp add: power_int_def nat_diff_distrib')
  then have lo: "(10::real) powi (int precision - 1) \<le> of_int m"
    using assms(3) by (simp add: of_int_le_iff [of "10 ^ (precision - 1)" m, symmetric] del: of_int_le_iff)
  have hi: "of_int m < (10::real) powi (int precision)"
    using assms(4) by (simp add: of_int_less_iff [of m "10 ^ precision", symmetric] del: of_int_less_iff)
  have e: "exponent10 y = j + int precision - 1"
  proof (rule exponent10_eqI)
    have "(10::real) powi (int precision - 1) * 10 powi j \<le> of_int m * 10 powi j"
      using lo t by (intro mult_right_mono) simp_all
    moreover have "(10::real) powi (int precision - 1) * 10 powi j = 10 powi (j + int precision - 1)"
      by (rule ten_powi_mult) simp
    ultimately show "10 powi (j + int precision - 1) \<le> \<bar>y\<bar>" by (simp only: assms(2))
    have "of_int m * 10 powi j < (10::real) powi (int precision) * 10 powi j"
      using hi t by (intro mult_strict_right_mono) simp_all
    moreover have "(10::real) powi (int precision) * 10 powi j = 10 powi (j + int precision - 1 + 1)"
      by (rule ten_powi_mult) simp
    ultimately show "\<bar>y\<bar> < 10 powi (j + int precision - 1 + 1)" by (simp only: assms(2))
  qed
  have "\<bar>y\<bar> * 10 powi (int precision - 1 - (j + int precision - 1))
        = of_int m * (10 powi j * 10 powi (int precision - 1 - (j + int precision - 1)))"
    by (simp only: assms(2) mult.assoc)
  also have "10 powi j * 10 powi (int precision - 1 - (j + int precision - 1)) = (1::real)"
    using ten_powi_mult [of j "int precision - 1 - (j + int precision - 1)" 0] by simp
  finally have s: "\<bar>y\<bar> * 10 powi (int precision - 1 - (j + int precision - 1)) = of_int m"
    by simp
  have u: "j + int precision - 1 + 1 - int precision = j" by simp
  have "round_digits mode precision y = sgn y * of_int m * 10 powi j"
    using y by (simp only: round_digits_def e s u round_magnitude_of_int if_False)
  also have "\<dots> = sgn y * \<bar>y\<bar>" by (simp only: assms(2) mult.assoc)
  also have "\<dots> = y" by (rule sgn_mult_abs)
  finally show ?thesis .
qed

lemma round_digits_idem:
  assumes "0 < precision"
  shows "round_digits mode precision (round_digits mode precision x) = round_digits mode precision x"
proof (cases "x = 0")
  case True
  then show ?thesis by (simp add: round_digits_def)
next
  case False
  let ?e = "exponent10 x"
  let ?n = "round_magnitude mode (x < 0) (\<bar>x\<bar> * 10 powi (int precision - 1 - ?e))"
  let ?y = "round_digits mode precision x"
  note r = rounded_magnitude_range [OF False assms, of mode "x < 0"]
  have "(0::int) < 10 ^ (precision - 1)" by simp
  with r(1) have n: "0 < ?n" by linarith
  have y: "?y = sgn x * of_int ?n * 10 powi (?e + 1 - int precision)"
    using False by (simp only: round_digits_def if_False)
  have a: "\<bar>?y\<bar> = of_int ?n * 10 powi (?e + 1 - int precision)"
    unfolding y using False n by (simp add: abs_mult abs_sgn_eq)
  show ?thesis
  proof (cases "?n < 10 ^ precision")
    case True
    show ?thesis by (rule round_digits_fixed [OF assms a r(1) True])
  next
    case False
    with r(2) have top: "?n = 10 ^ precision" by linarith
    from assms have "(10::real) ^ precision = 10 ^ (precision - 1) * 10"
      by (cases precision) simp_all
    then have "\<bar>?y\<bar> = of_int (10 ^ (precision - 1)) * (10 powi 1 * 10 powi (?e + 1 - int precision))"
      unfolding a top by simp
    also have "10 powi 1 * 10 powi (?e + 1 - int precision) = (10::real) powi (?e + 2 - int precision)"
      by (rule ten_powi_mult) simp
    finally have b: "\<bar>?y\<bar> = of_int (10 ^ (precision - 1)) * 10 powi (?e + 2 - int precision)" .
    from assms have "(10::int) ^ (precision - 1) < 10 ^ precision"
      by (intro power_strict_increasing) simp_all
    then show ?thesis by (intro round_digits_fixed [OF assms b]) simp_all
  qed
qed

lemma round_digits_pos:
  assumes "0 < x" and "0 < precision"
  shows "0 < round_digits mode precision x"
proof -
  from assms(1) have nz: "x \<noteq> 0" by simp
  note r = rounded_magnitude_range(1) [OF nz assms(2), of mode "x < 0"]
  have "(0::int) < 10 ^ (precision - 1)" by simp
  with r have "0 < round_magnitude mode (x < 0) (\<bar>x\<bar> * 10 powi (int precision - 1 - exponent10 x))"
    by linarith
  then show ?thesis using assms(1) by (simp add: round_digits_def)
qed

lemma round_digits_times_power:
  "round_digits mode precision (x * 10 ^ n) = round_digits mode precision x * 10 ^ n"
  using round_digits_scale [of mode precision x "int n"] by simp

lemma round_digits_divide_power:
  "round_digits mode precision (x * (1 / 10 ^ n)) = round_digits mode precision x * (1 / 10 ^ n)"
  using round_digits_scale [of mode precision x "- int n"]
  by (simp add: power_int_minus field_simps)

lemma double_reciprocal_error:
  assumes x: "0 < x" and p: "2 \<le> precision"
  shows "0 < round_digits mode precision (1 / x)"
    and "\<bar>round_digits mode precision (1 / round_digits mode precision (1 / x)) - x\<bar>
           \<le> 3 * 10 powi (1 - int precision) * x"
proof -
  let ?u = "(10::real) powi (1 - int precision)"
  let ?r = "round_digits mode precision (1 / x)"
  let ?v = "round_digits mode precision (1 / ?r)"
  from p have pp: "0 < precision" by simp
  from x show r: "0 < ?r" by (intro round_digits_pos [OF _ pp]) simp
  have u0: "0 < ?u" by simp
  have "?u \<le> 10 powi (-1)" using p by (intro power_int_increasing) simp_all
  then have u1: "?u \<le> 1 / 10" by (simp add: power_int_minus)
  have e1: "\<bar>?r - 1 / x\<bar> \<le> ?u * (1 / x)"
    using round_digits_error [of mode precision "1 / x"] x by simp
  then have "1 / x - ?u * (1 / x) \<le> ?r" by linarith
  then have "(1 - ?u) * (1 / x) \<le> ?r" by (simp add: algebra_simps)
  moreover have "9 / 10 * (1 / x) \<le> (1 - ?u) * (1 / x)"
    using u1 x by (intro mult_right_mono) simp_all
  ultimately have lo: "9 / 10 * (1 / x) \<le> ?r" by linarith
  then have "9 / 10 \<le> ?r * x" using x by (simp add: field_simps)
  then have inv: "1 / ?r \<le> 10 / 9 * x" using r by (simp add: field_simps)
  have "1 / ?r - x = (1 / x - ?r) * (x * (1 / ?r))" using x r by (simp add: field_simps)
  then have "\<bar>1 / ?r - x\<bar> = \<bar>?r - 1 / x\<bar> * (x * (1 / ?r))"
    using x r by (simp add: abs_mult abs_minus_commute)
  also have "\<dots> \<le> (?u * (1 / x)) * (x * (1 / ?r))"
    using e1 x r by (intro mult_right_mono) simp_all
  also have "\<dots> = ?u * (1 / ?r)" using x by simp
  also have "\<dots> \<le> ?u * (10 / 9 * x)" using inv u0 by (intro mult_left_mono) simp_all
  finally have a: "\<bar>1 / ?r - x\<bar> \<le> ?u * (10 / 9 * x)" .
  have "\<bar>?v - 1 / ?r\<bar> \<le> ?u * (1 / ?r)"
    using round_digits_error [of mode precision "1 / ?r"] r by simp
  also have "\<dots> \<le> ?u * (10 / 9 * x)" using inv u0 by (intro mult_left_mono) simp_all
  finally have b: "\<bar>?v - 1 / ?r\<bar> \<le> ?u * (10 / 9 * x)" .
  have "\<bar>?v - x\<bar> \<le> \<bar>?v - 1 / ?r\<bar> + \<bar>1 / ?r - x\<bar>" by linarith
  also have "\<dots> \<le> ?u * (10 / 9 * x) + ?u * (10 / 9 * x)" using a b by linarith
  also have "\<dots> = 20 / 9 * (?u * x)" by simp
  also have "\<dots> \<le> 3 * (?u * x)" using u0 x by (intro mult_right_mono) simp_all
  finally show "\<bar>?v - x\<bar> \<le> 3 * ?u * x" by (simp add: mult.assoc)
qed

lemma round_digits_reciprocal_lower:
  assumes x: "0 < x" and p: "2 \<le> precision"
  shows "9 / 10 * (1 / x) \<le> round_digits mode precision (1 / x)"
proof -
  let ?u = "(10::real) powi (1 - int precision)"
  let ?r = "round_digits mode precision (1 / x)"
  have "?u \<le> 10 powi (-1)" using p by (intro power_int_increasing) simp_all
  then have u1: "?u \<le> 1 / 10" by (simp add: power_int_minus)
  have "\<bar>?r - 1 / x\<bar> \<le> ?u * (1 / x)"
    using round_digits_error [of mode precision "1 / x"] x by simp
  then have "1 / x - ?u * (1 / x) \<le> ?r" by linarith
  then have "(1 - ?u) * (1 / x) \<le> ?r" by (simp add: algebra_simps)
  moreover have "9 / 10 * (1 / x) \<le> (1 - ?u) * (1 / x)"
    using u1 x by (intro mult_right_mono) simp_all
  ultimately show ?thesis by linarith
qed

lemma round_digits_eval:
  assumes "10 powi e \<le> \<bar>x\<bar>" and "\<bar>x\<bar> < 10 powi (e + 1)"
  shows "round_digits mode precision x
         = sgn x * of_int (round_magnitude mode (x < 0) (\<bar>x\<bar> * 10 powi (int precision - 1 - e)))
             * 10 powi (e + 1 - int precision)"
proof -
  have "(0::real) < 10 powi e" by simp
  with assms(1) have "0 < \<bar>x\<bar>" by linarith
  then have "x \<noteq> 0" by simp
  then show ?thesis by (simp only: round_digits_def exponent10_eqI [OF assms] if_False)
qed

lemma round_digits_short:
  assumes "\<bar>y\<bar> = of_int k * 10 powi j" and "0 \<le> k" and "k < 10 ^ precision"
  shows "round_digits mode precision y = y"
proof (cases "y = 0")
  case True
  then show ?thesis by (simp add: round_digits_def)
next
  case False
  let ?e = "exponent10 y"
  note b = exponent10_bounds [OF False]
  have t: "(0::real) < 10 powi j" by simp
  have "of_int k < (10::real) ^ precision"
    using assms(3) by (simp add: of_int_less_iff [of k "10 ^ precision", symmetric] del: of_int_less_iff)
  then have "of_int k * 10 powi j < (10::real) powi (int precision) * 10 powi j"
    using t by (intro mult_strict_right_mono) simp_all
  also have "(10::real) powi (int precision) * 10 powi j = 10 powi (int precision + j)"
    by (rule ten_powi_mult) simp
  finally have "\<bar>y\<bar> < 10 powi (int precision + j)" by (simp only: assms(1))
  with b(1) have lt: "(10::real) powi ?e < 10 powi (int precision + j)" by linarith
  have "?e < int precision + j"
  proof (rule ccontr)
    assume "\<not> ?e < int precision + j"
    then have "int precision + j \<le> ?e" by simp
    then have "(10::real) powi (int precision + j) \<le> 10 powi ?e"
      by (intro power_int_increasing) simp_all
    with lt show False by linarith
  qed
  then have nonneg: "0 \<le> j + int precision - 1 - ?e" by simp
  define d where "d = nat (j + int precision - 1 - ?e)"
  have d: "int d = j + int precision - 1 - ?e" unfolding d_def using nonneg by (rule nat_0_le)
  have "\<bar>y\<bar> * 10 powi (int precision - 1 - ?e)
        = of_int k * (10 powi j * 10 powi (int precision - 1 - ?e))"
    by (simp only: assms(1) mult.assoc)
  also have "10 powi j * 10 powi (int precision - 1 - ?e) = (10::real) powi (int d)"
    by (rule ten_powi_mult) (simp add: d)
  finally have s: "\<bar>y\<bar> * 10 powi (int precision - 1 - ?e) = of_int (k * 10 ^ d)"
    by simp
  have "round_digits mode precision y
        = sgn y * of_int (k * 10 ^ d) * 10 powi (?e + 1 - int precision)"
    using False by (simp only: round_digits_def s round_magnitude_of_int if_False)
  also have "\<dots> = sgn y * (of_int k * (10 powi (int d) * 10 powi (?e + 1 - int precision)))"
    by simp
  also have "10 powi (int d) * 10 powi (?e + 1 - int precision) = (10::real) powi j"
    by (rule ten_powi_mult) (simp add: d)
  finally have "round_digits mode precision y = sgn y * \<bar>y\<bar>" by (simp only: assms(1))
  then show ?thesis by (simp only: sgn_mult_abs)
qed

lemma round_digits_integer:
  assumes "0 \<le> k" and "k < 10 ^ precision"
  shows "round_digits mode precision (of_int k) = of_int k"
proof (rule round_digits_short [OF _ assms])
  from assms(1) show "\<bar>of_int k :: real\<bar> = of_int k * 10 powi 0" by simp
qed



lemma round_half_down_eval:
  assumes "10 powi e \<le> x" and "x < 10 powi (e + 1)"
    and "10 powi (int precision - 1 - e) = S" and "10 powi (e + 1 - int precision) = U"
  shows "round_digits ROUND_HALF_DOWN precision x = of_int \<lceil>x * S - 1 / 2\<rceil> * U"
proof -
  have "(0::real) < 10 powi e" by simp
  with assms(1) have x: "0 < x" by linarith
  then have a: "\<bar>x\<bar> = x" "sgn x = 1" by simp_all
  from assms(1,2) have b: "10 powi e \<le> \<bar>x\<bar>" "\<bar>x\<bar> < 10 powi (e + 1)" by (simp_all only: a)
  show ?thesis
    unfolding round_digits_eval [OF b] by (simp only: a assms(3,4) round_magnitude.simps mult_1)
qed

lemma seven_divides: "(7::int) dvd 10 ^ 100 + 3"
proof -
  define c :: int where "c = (10 ^ 6) ^ 16"
  have "c mod 7 = ((10 ^ 6 mod 7) ^ 16) mod 7" unfolding c_def by (simp only: power_mod)
  also have "(10::int) ^ 6 mod 7 = 1" by simp
  finally have c: "c mod 7 = 1" by simp
  have e: "(100::nat) = 6 * 16 + 4" by simp
  have split: "(10::int) ^ 100 = c * 10 ^ 4" unfolding c_def e power_add power_mult ..
  have "(c * 10 ^ 4 + 3) mod 7 = ((c * 10 ^ 4) mod 7 + 3) mod 7" by (simp only: mod_add_left_eq)
  also have "(c * 10 ^ 4) mod 7 = ((c mod 7) * 10 ^ 4) mod 7" by (simp only: mod_mult_left_eq)
  also have "\<dots> = 4" unfolding c by simp
  finally have "(c * 10 ^ 4 + 3) mod 7 = 0" by simp
  then show ?thesis unfolding split by (simp only: dvd_eq_mod_eq_0)
qed

lemma reciprocal_of_seven:
  shows "round_digits ROUND_HALF_DOWN 100 (1 / 7) = (10 ^ 100 + 3) / (7 * 10 ^ 100)"
    and "round_digits ROUND_HALF_DOWN 100 (1 / round_digits ROUND_HALF_DOWN 100 (1 / 7))
         = 7 - 2 / 10 ^ 99"
proof -
  define B :: real where "B = 10 ^ 99"
  have B: "1 \<le> B" unfolding B_def by (rule one_le_power) simp
  have A: "(10::real) ^ 100 = 10 * B" unfolding B_def by (simp only: power_Suc [symmetric]) simp
  have pw1: "(10::real) powi (int 100 - 1 - (- 1)) = 10 * B"
    "(10::real) powi (- 1 + 1 - int 100) = 1 / (10 * B)"
    unfolding B_def by (simp_all add: power_int_minus)
  have pw2: "(10::real) powi (int 100 - 1 - 0) = B" "(10::real) powi (0 + 1 - int 100) = 1 / B"
    unfolding B_def by (simp_all add: power_int_minus)
  obtain n :: int where "10 ^ 100 + 3 = 7 * n" using seven_divides by (rule dvdE)
  then have "(of_int (10 ^ 100 + 3) :: real) = of_int (7 * n)" by (rule arg_cong)
  then have "(10::real) ^ 100 + 3 = 7 * of_int n"
    by (simp only: of_int_add of_int_mult of_int_power of_int_numeral)
  then have "10 * B + 3 = 7 * of_int n" by (simp only: A)
  then have "(10 * B + 3) / 7 = (7 * of_int n) / 7" by (rule arg_cong)
  then have n: "of_int n = (10 * B + 3) / 7" by simp
  have b1: "10 powi (- 1) \<le> (1 / 7 :: real)" "(1 / 7 :: real) < 10 powi (- 1 + 1)"
    by (simp_all add: power_int_minus)
  have c1: "\<lceil>1 / 7 * (10 * B) - 1 / 2\<rceil> = n"
  proof (rule ceiling_unique)
    show "of_int n - 1 < 1 / 7 * (10 * B) - 1 / 2" unfolding n by argo
    show "1 / 7 * (10 * B) - 1 / 2 \<le> of_int n" unfolding n by argo
  qed
  have "round_digits ROUND_HALF_DOWN 100 (1 / 7) = of_int n * (1 / (10 * B))"
    unfolding round_half_down_eval [OF b1 pw1] c1 ..
  then have r: "round_digits ROUND_HALF_DOWN 100 (1 / 7) = (10 * B + 3) / (70 * B)"
    by (simp add: n)
  show "round_digits ROUND_HALF_DOWN 100 (1 / 7) = (10 ^ 100 + 3) / (7 * 10 ^ 100)"
    unfolding r A by simp
  define D where "D = 10 * B + 3"
  have D: "13 \<le> D" using B by (simp add: D_def)
  have y: "1 / ((10 * B + 3) / (70 * B)) = 70 * B / D" by (simp add: D_def)
  have q: "70 * B / D * B = 7 * B - 21 / 10 + (63 / 10) / D"
    using D by (simp add: D_def field_simps power2_eq_square)
  have f: "0 < (63 / 10) / D" "(63 / 10) / D \<le> 1 / 2" using D by (simp_all add: field_simps)
  have y1: "1 \<le> 70 * B / D" "70 * B / D < 10" using B D by (simp_all add: D_def field_simps)
  then have b2: "10 powi 0 \<le> 70 * B / D" "70 * B / D < 10 powi (0 + 1)" by simp_all
  have z: "(of_int (7 * 10 ^ 99 - 2) :: real) = 7 * B - 2" by (simp add: B_def)
  have c2: "\<lceil>70 * B / D * B - 1 / 2\<rceil> = 7 * 10 ^ 99 - 2"
  proof (rule ceiling_unique)
    show "of_int (7 * 10 ^ 99 - 2) - 1 < 70 * B / D * B - 1 / 2"
      unfolding z q using f by argo
    show "70 * B / D * B - 1 / 2 \<le> of_int (7 * 10 ^ 99 - 2)"
      unfolding z q using f by argo
  qed
  have "round_digits ROUND_HALF_DOWN 100 (70 * B / D) = (7 * B - 2) * (1 / B)"
    unfolding round_half_down_eval [OF b2 pw2] c2 z ..
  also have "\<dots> = 7 - 2 / B" using B by (simp add: field_simps)
  finally have v: "round_digits ROUND_HALF_DOWN 100 (70 * B / D) = 7 - 2 / B" .
  show "round_digits ROUND_HALF_DOWN 100 (1 / round_digits ROUND_HALF_DOWN 100 (1 / 7))
         = 7 - 2 / 10 ^ 99"
    unfolding r y v unfolding B_def ..
qed


section \<open>The round trip\<close>

lemma tenPow_powi: "tenPow dec0 dec1 = Fin (10 powi (int dec0 - int dec1))"
proof (cases "dec1 \<le> dec0")
  case True
  then have "int dec0 - int dec1 = int (dec0 - dec1)" by simp
  then have "(10::real) powi (int dec0 - int dec1) = 10 ^ (dec0 - dec1)"
    by (simp only: power_int_of_nat)
  with True show ?thesis by (simp add: tenPow_def)
next
  case False
  then have "int dec0 - int dec1 = - int (dec1 - dec0)" by simp
  then have "(10::real) powi (int dec0 - int dec1) = 1 / 10 ^ (dec1 - dec0)"
    by (simp only: power_int_minus power_int_of_nat inverse_eq_divide)
  with False show ?thesis by (simp add: tenPow_def)
qed

lemma normalizeRate_rounded_Fin:
  "normalizeRate_rounded mode precision (Fin x) dec0 dec1
     = Fin (round_digits mode precision x * 10 powi (int dec0 - int dec1))"
  by (simp add: normalizeRate_rounded_def times_rounded_def tenPow_powi round_digits_scale)

lemma rate_rounded_round_trip:
  assumes "0 < precision"
  shows "normalizeRate_rounded mode precision
           (normalizeRate_rounded mode precision (Fin x) q b) b q
         = Fin (round_digits mode precision x)"
proof -
  have "round_digits mode precision x * 10 powi (int q - int b) * 10 powi (int b - int q)
        = round_digits mode precision x * (10 powi (int q - int b) * 10 powi (int b - int q))"
    by simp
  also have "10 powi (int q - int b) * 10 powi (int b - int q) = (1::real)"
    using ten_powi_mult [of "int q - int b" "int b - int q" 0] by simp
  finally have c: "round_digits mode precision x * 10 powi (int q - int b)
                     * 10 powi (int b - int q) = round_digits mode precision x" by simp
  show ?thesis
    by (simp only: normalizeRate_rounded_Fin round_digits_scale
        round_digits_idem [OF assms] c)
qed

lemma inverted_rate_rounded_Fin:
  assumes "\<not> number_is_zero (Fin x)" and "0 < precision"
  shows "normalizeInvertedRate_rounded mode precision (Fin x) q b
         = Fin (round_digits mode precision (1 / x) * 10 powi (int b - int q))"
proof -
  from assms underflow_bound_pos have "x \<noteq> 0" by auto
  with assms(1) show ?thesis
    by (simp add: normalizeInvertedRate_rounded_def times_rounded_def div_rounded_def
        tenPow_powi round_digits_scale round_digits_idem [OF assms(2)]
        del: number_is_zero.simps)
qed

lemma inverted_rate_rounded_round_trip:
  assumes x: "0 < x" and p: "0 < precision"
    and nz: "\<not> number_is_zero (Fin x)"
    and nzr: "\<not> number_is_zero (normalizeInvertedRate_rounded mode precision (Fin x) q b)"
  shows "normalizeInvertedRate_rounded mode precision
           (normalizeInvertedRate_rounded mode precision (Fin x) q b) q b
         = Fin (round_digits mode precision (1 / round_digits mode precision (1 / x)))"
proof -
  let ?r = "round_digits mode precision (1 / x)"
  let ?t = "(10::real) powi (int b - int q)"
  note first = inverted_rate_rounded_Fin [OF nz p, of mode q b]
  from nzr have nz2: "\<not> number_is_zero (Fin (?r * ?t))" unfolding first .
  from x have r: "0 < ?r" by (intro round_digits_pos [OF _ p]) simp
  have t: "0 < ?t" by simp
  have inv: "1 / (?r * ?t) = 1 / ?r * 10 powi (int q - int b)"
  proof -
    have "?t * 10 powi (int q - int b) = 1"
      using ten_powi_mult [of "int b - int q" "int q - int b" 0] by simp
    then have e: "1 / ?t = 10 powi (int q - int b)" using t by (simp add: field_simps)
    have "1 / (?r * ?t) = 1 / ?r * (1 / ?t)" by simp
    then show ?thesis by (simp only: e)
  qed
  have "round_digits mode precision (1 / ?r) * 10 powi (int q - int b) * ?t
        = round_digits mode precision (1 / ?r) * (10 powi (int q - int b) * ?t)"
    by simp
  also have "10 powi (int q - int b) * ?t = (1::real)"
    using ten_powi_mult [of "int q - int b" "int b - int q" 0] by simp
  finally have c: "round_digits mode precision (1 / ?r) * 10 powi (int q - int b) * ?t
                     = round_digits mode precision (1 / ?r)" by simp
  show ?thesis
    unfolding first
    by (simp only: inverted_rate_rounded_Fin [OF nz2 p] inv round_digits_scale c)
qed

lemma inverted_rate_rounded_guard:
  assumes x: "0 < x" and p: "2 \<le> precision" and nz: "\<not> number_is_zero (Fin x)"
    and large: "1 / 10 ^ 20 \<le> 9 / 10 * (1 / x) * 10 powi (int b - int q)"
  shows "\<not> number_is_zero (normalizeInvertedRate_rounded mode precision (Fin x) q b)"
proof -
  from p have p0: "0 < precision" by simp
  let ?t = "(10::real) powi (int b - int q)"
  have t: "0 < ?t" by simp
  have "9 / 10 * (1 / x) * ?t \<le> round_digits mode precision (1 / x) * ?t"
    using round_digits_reciprocal_lower [OF x p, of mode] t by (intro mult_right_mono) simp_all
  with large have lo: "1 / 10 ^ 20 \<le> round_digits mode precision (1 / x) * ?t" by linarith
  have "(0::real) \<le> 1 / 10 ^ 20" by simp
  with lo have "0 \<le> round_digits mode precision (1 / x) * ?t" by linarith
  then have "\<bar>round_digits mode precision (1 / x) * ?t\<bar> = round_digits mode precision (1 / x) * ?t"
    by (rule abs_of_nonneg)
  with lo have "1 / 10 ^ 20 \<le> \<bar>round_digits mode precision (1 / x) * ?t\<bar>" by simp
  then have "\<not> number_is_zero (Fin (round_digits mode precision (1 / x) * ?t))"
    by (rule not_number_is_zero_ge)
  then show ?thesis unfolding inverted_rate_rounded_Fin [OF nz p0] .
qed

lemma guard_input_mono:
  assumes "0 < x" and "x \<le> y" and "\<not> number_is_zero (Fin x)"
  shows "\<not> number_is_zero (Fin y)"
  using assms by simp

lemma budget_round_trip:
  assumes "0 \<le> x"
  shows "formatUnits (parseUnits (Fin x) d) d = Fin (truncate_places d x)"
proof -
  from assms have "0 \<le> x * 10 ^ d" by simp
  then have "truncate_places 0 (x * 10 ^ d) = of_int \<lfloor>x * 10 ^ d\<rfloor>"
    by (simp add: truncate_places_def)
  with assms show ?thesis
    by (simp add: formatUnits_def parseUnits_def truncate_places_def)
qed


text \<open>
  Claim C3, amended. With the identity codec and a resolver that returns the decimals the
  strategy was built with, at a working precision of at least two digits, parsing a built
  strategy gives back each buy price rounded to the working precision, hence the price itself
  when it has no more significant digits than that; each sell price within the relative error
  \<open>3 * 10 powi (1 - precision)\<close>, which the two rounded reciprocals leave; and each
  budget cut to the decimals of its token, hence the budget itself when it has no more
  fractional digits than that. This holds for valid inputs whose sell prices and inverted sell
  rates are not taken for zero by the zero guard.
\<close>

theorem build_and_parse_rounded_round_trip:
  fixes buyPriceLow buyPriceMarginal buyPriceHigh buyBudget :: real
    and sellPriceLow sellPriceMarginal sellPriceHigh sellBudget :: real
  assumes digits: "2 \<le> precision"
    and buy: "0 \<le> buyPriceLow" "buyPriceLow \<le> buyPriceMarginal"
      "buyPriceMarginal \<le> buyPriceHigh"
    and sell: "0 < sellPriceLow" "sellPriceLow \<le> sellPriceMarginal"
      "sellPriceMarginal \<le> sellPriceHigh"
    and budgets: "0 \<le> buyBudget" "0 \<le> sellBudget"
    and guard: "\<not> number_is_zero (Fin sellPriceLow)"
      "\<not> number_is_zero
          (normalizeInvertedRate_rounded mode precision (Fin sellPriceLow) quoteDecimals baseDecimals)"
      "\<not> number_is_zero
          (normalizeInvertedRate_rounded mode precision (Fin sellPriceMarginal) quoteDecimals baseDecimals)"
      "\<not> number_is_zero
          (normalizeInvertedRate_rounded mode precision (Fin sellPriceHigh) quoteDecimals baseDecimals)"
    and resolver: "fetchDecimals baseToken = Inr baseDecimals"
      "fetchDecimals quoteToken = Inr quoteDecimals"
  shows "\<exists>low marginal high encodedStr.
    build_and_parse_rounded mode precision id id encodedStrategyBNToStr fetchDecimals sid
       baseToken quoteToken baseDecimals quoteDecimals
       (Fin buyPriceLow) (Fin buyPriceMarginal) (Fin buyPriceHigh) (Fin buyBudget)
       (Fin sellPriceLow) (Fin sellPriceMarginal) (Fin sellPriceHigh) (Fin sellBudget)
    = Inr \<lparr>str_id = sid, str_baseToken = baseToken, str_quoteToken = quoteToken,
        str_buyPriceLow = Fin (round_digits mode precision buyPriceLow),
        str_buyPriceMarginal = Fin (round_digits mode precision buyPriceMarginal),
        str_buyPriceHigh = Fin (round_digits mode precision buyPriceHigh),
        str_buyBudget = Fin (truncate_places quoteDecimals buyBudget),
        str_sellPriceLow = Fin low, str_sellPriceMarginal = Fin marginal,
        str_sellPriceHigh = Fin high,
        str_sellBudget = Fin (truncate_places baseDecimals sellBudget),
        str_encoded = encodedStr\<rparr>
    \<and> \<bar>low - sellPriceLow\<bar> \<le> 3 * 10 powi (1 - int precision) * sellPriceLow
    \<and> \<bar>marginal - sellPriceMarginal\<bar> \<le> 3 * 10 powi (1 - int precision) * sellPriceMarginal
    \<and> \<bar>high - sellPriceHigh\<bar> \<le> 3 * 10 powi (1 - int precision) * sellPriceHigh"
proof -
  from digits have p: "0 < precision" by simp
  from sell have pos: "0 < sellPriceMarginal" "0 < sellPriceHigh" by simp_all
  note in_mid = guard_input_mono [OF sell(1) sell(2) guard(1)]
  note in_high = guard_input_mono [OF pos(1) sell(3) in_mid]
  note trips = inverted_rate_rounded_round_trip [OF sell(1) p guard(1) guard(2)]
    inverted_rate_rounded_round_trip [OF pos(1) p in_mid guard(3)]
    inverted_rate_rounded_round_trip [OF pos(2) p in_high guard(4)]
    rate_rounded_round_trip [OF p] budget_round_trip [OF budgets(1)]
    budget_round_trip [OF budgets(2)]
  note bounds = double_reciprocal_error(2) [OF sell(1) digits, of mode]
    double_reciprocal_error(2) [OF pos(1) digits, of mode]
    double_reciprocal_error(2) [OF pos(2) digits, of mode]
  from buy sell budgets have valid:
    "\<not> (buyPriceLow < 0 \<or> buyPriceMarginal < 0 \<or> buyPriceHigh < 0
         \<or> sellPriceLow < 0 \<or> sellPriceMarginal < 0 \<or> sellPriceHigh < 0)"
    "\<not> (buyPriceMarginal < buyPriceLow \<or> buyPriceHigh < buyPriceLow
         \<or> buyPriceHigh < buyPriceMarginal \<or> sellPriceMarginal < sellPriceLow
         \<or> sellPriceHigh < sellPriceLow \<or> sellPriceHigh < sellPriceMarginal)"
    "\<not> (buyBudget < 0 \<or> sellBudget < 0)"
    by simp_all
  have "build_and_parse_rounded mode precision id id encodedStrategyBNToStr fetchDecimals sid
       baseToken quoteToken baseDecimals quoteDecimals
       (Fin buyPriceLow) (Fin buyPriceMarginal) (Fin buyPriceHigh) (Fin buyBudget)
       (Fin sellPriceLow) (Fin sellPriceMarginal) (Fin sellPriceHigh) (Fin sellBudget)
    = Inr \<lparr>str_id = sid, str_baseToken = baseToken, str_quoteToken = quoteToken,
        str_buyPriceLow = Fin (round_digits mode precision buyPriceLow),
        str_buyPriceMarginal = Fin (round_digits mode precision buyPriceMarginal),
        str_buyPriceHigh = Fin (round_digits mode precision buyPriceHigh),
        str_buyBudget = Fin (truncate_places quoteDecimals buyBudget),
        str_sellPriceLow =
          Fin (round_digits mode precision (1 / round_digits mode precision (1 / sellPriceLow))),
        str_sellPriceMarginal =
          Fin (round_digits mode precision (1 / round_digits mode precision (1 / sellPriceMarginal))),
        str_sellPriceHigh =
          Fin (round_digits mode precision (1 / round_digits mode precision (1 / sellPriceHigh))),
        str_sellBudget = Fin (truncate_places baseDecimals sellBudget),
        str_encoded = encodedStrategyBNToStr
          (stored_strategy sid (encodeStrategy id
            \<lparr>order0 = order0 (createOrders_rounded mode precision baseDecimals quoteDecimals
               (Fin buyPriceLow) (Fin buyPriceMarginal) (Fin buyPriceHigh) (Fin buyBudget)
               (Fin sellPriceLow) (Fin sellPriceMarginal) (Fin sellPriceHigh) (Fin sellBudget)),
             order1 = order1 (createOrders_rounded mode precision baseDecimals quoteDecimals
               (Fin buyPriceLow) (Fin buyPriceMarginal) (Fin buyPriceHigh) (Fin buyBudget)
               (Fin sellPriceLow) (Fin sellPriceMarginal) (Fin sellPriceHigh) (Fin sellBudget)),
             token0 = baseToken, token1 = quoteToken\<rparr>))\<rparr>"
    using valid
    by (simp add: build_and_parse_rounded_def buildStrategyObject_rounded_def
        parseStrategy_rounded_def decodeStrategy_def stored_strategy_def encodeStrategy_def
        createOrders_rounded_def resolver trips del: number_is_zero.simps)
  with bounds show ?thesis by blast
qed

theorem build_and_parse_rounded_round_trip_witness:
  "(2::nat) \<le> 100
   \<and> \<not> number_is_zero (Fin 2000)
   \<and> \<not> number_is_zero (normalizeInvertedRate_rounded ROUND_HALF_DOWN 100 (Fin 2000) 6 18)
   \<and> \<not> number_is_zero (normalizeInvertedRate_rounded ROUND_HALF_DOWN 100 (Fin 2100) 6 18)
   \<and> \<not> number_is_zero (normalizeInvertedRate_rounded ROUND_HALF_DOWN 100 (Fin 2200) 6 18)
   \<and> known_decimals ''base'' 18 ''quote'' 6 ''base'' = Inr 18
   \<and> known_decimals ''base'' 18 ''quote'' 6 ''quote'' = Inr 6
   \<and> (\<exists>low marginal high encodedStr.
        build_and_parse_rounded ROUND_HALF_DOWN 100 id id strategy_id
          (known_decimals ''base'' 18 ''quote'' 6) 7 ''base'' ''quote'' 18 6
          (Fin 1800) (Fin 1900) (Fin 2000) (Fin 1000)
          (Fin 2000) (Fin 2100) (Fin 2200) (Fin (1 / 2))
        = Inr \<lparr>str_id = 7, str_baseToken = ''base'', str_quoteToken = ''quote'',
            str_buyPriceLow = Fin 1800, str_buyPriceMarginal = Fin 1900,
            str_buyPriceHigh = Fin 2000, str_buyBudget = Fin 1000,
            str_sellPriceLow = Fin low, str_sellPriceMarginal = Fin marginal,
            str_sellPriceHigh = Fin high, str_sellBudget = Fin (1 / 2),
            str_encoded = encodedStr\<rparr>
        \<and> \<bar>low - 2000\<bar> \<le> 3 * 10 powi (1 - int 100) * 2000
        \<and> \<bar>marginal - 2100\<bar> \<le> 3 * 10 powi (1 - int 100) * 2100
        \<and> \<bar>high - 2200\<bar> \<le> 3 * 10 powi (1 - int 100) * 2200)"
proof -
  have p: "(2::nat) \<le> 100" by simp
  have g: "\<not> number_is_zero (Fin 2000)" "\<not> number_is_zero (Fin 2100)"
    "\<not> number_is_zero (Fin 2200)"
    by (rule not_number_is_zero_ge, simp)+
  have r: "\<not> number_is_zero (normalizeInvertedRate_rounded ROUND_HALF_DOWN 100 (Fin 2000) 6 18)"
    "\<not> number_is_zero (normalizeInvertedRate_rounded ROUND_HALF_DOWN 100 (Fin 2100) 6 18)"
    "\<not> number_is_zero (normalizeInvertedRate_rounded ROUND_HALF_DOWN 100 (Fin 2200) 6 18)"
    by (rule inverted_rate_rounded_guard [OF _ p], simp, rule g, simp)+
  have k: "known_decimals ''base'' 18 ''quote'' 6 ''base'' = Inr 18"
    "known_decimals ''base'' 18 ''quote'' 6 ''quote'' = Inr 6"
    by (simp_all add: known_decimals_def)
  have t: "truncate_places 6 1000 = 1000" "truncate_places 18 (1 / 2) = 1 / 2"
    by (simp_all add: truncate_places_def)
  have i: "round_digits ROUND_HALF_DOWN 100 1800 = 1800"
    "round_digits ROUND_HALF_DOWN 100 1900 = 1900"
    "round_digits ROUND_HALF_DOWN 100 2000 = 2000"
    using round_digits_integer [of 1800 100 ROUND_HALF_DOWN]
      round_digits_integer [of 1900 100 ROUND_HALF_DOWN]
      round_digits_integer [of 2000 100 ROUND_HALF_DOWN] by simp_all
  show ?thesis
    using build_and_parse_rounded_round_trip [of 100 1800 1900 2000 2000 2100 2200 1000 "1 / 2"
        ROUND_HALF_DOWN 6 18 "known_decimals ''base'' 18 ''quote'' 6" "''base''" "''quote''"
        strategy_id 7, OF p _ _ _ _ _ _ _ _ g(1) r k]
    by (simp only: p g r k t i simp_thms)
qed

text \<open>
  The claim as stated promises the six prices back without any error. At 100 significant
  digits in the mode \<open>ROUND_HALF_DOWN\<close>, with 18 and 6 decimals, the sell price 7 is stored
  as the rounded rate \<open>1 / 7\<close> and parsed back as \<open>7 - 2 / 10 ^ 99\<close>, two units of the
  last digit below 7.
\<close>

theorem build_and_parse_rounded_reciprocal_loss:
  "build_and_parse_rounded ROUND_HALF_DOWN 100 id id strategy_id
     (known_decimals ''base'' 18 ''quote'' 6) 7 ''base'' ''quote'' 18 6
     (Fin 1) (Fin 1) (Fin 1) (Fin 1) (Fin 7) (Fin 7) (Fin 7) (Fin 1)
   = Inr \<lparr>str_id = 7, str_baseToken = ''base'', str_quoteToken = ''quote'',
       str_buyPriceLow = Fin 1, str_buyPriceMarginal = Fin 1,
       str_buyPriceHigh = Fin 1, str_buyBudget = Fin 1,
       str_sellPriceLow = Fin (7 - 2 / 10 ^ 99), str_sellPriceMarginal = Fin (7 - 2 / 10 ^ 99),
       str_sellPriceHigh = Fin (7 - 2 / 10 ^ 99), str_sellBudget = Fin 1,
       str_encoded = 7\<rparr>
   \<and> Fin (7 - 2 / 10 ^ 99) \<noteq> Fin 7"
proof -
  have p: "(2::nat) \<le> 100" "(0::nat) < 100" by simp_all
  have g: "\<not> number_is_zero (Fin 7)" by (rule not_number_is_zero_ge) simp
  have r: "\<not> number_is_zero (normalizeInvertedRate_rounded ROUND_HALF_DOWN 100 (Fin 7) 6 18)"
    by (rule inverted_rate_rounded_guard [OF _ p(1) g]) simp_all
  have trip: "normalizeInvertedRate_rounded ROUND_HALF_DOWN 100
           (normalizeInvertedRate_rounded ROUND_HALF_DOWN 100 (Fin 7) 6 18) 6 18
         = Fin (7 - 2 / 10 ^ 99)"
    using inverted_rate_rounded_round_trip [OF _ p(2) g r] by (simp only: reciprocal_of_seven(2))
  have one: "round_digits ROUND_HALF_DOWN 100 1 = 1"
    using round_digits_integer [of 1 100 ROUND_HALF_DOWN] by simp
  have buy: "normalizeRate_rounded ROUND_HALF_DOWN 100
           (normalizeRate_rounded ROUND_HALF_DOWN 100 (Fin 1) 6 18) 18 6 = Fin 1"
    by (simp only: rate_rounded_round_trip [OF p(2)] one)
  have b: "formatUnits (parseUnits (Fin 1) 18) 18 = Fin 1"
    "formatUnits (parseUnits (Fin 1) 6) 6 = Fin 1"
    by (simp_all add: budget_round_trip truncate_places_def)
  have ne: "Fin (7 - 2 / 10 ^ 99) \<noteq> Fin 7" by simp
  show ?thesis
    using ne
    by (simp add: build_and_parse_rounded_def buildStrategyObject_rounded_def
        parseStrategy_rounded_def decodeStrategy_def stored_strategy_def encodeStrategy_def
        createOrders_rounded_def known_decimals_def trip buy b del: number_is_zero.simps)
qed

section \<open>Fee arithmetic\<close>

lemma addFee_Fin:
  "tradingFeePPM < 1000000 \<Longrightarrow>
   addFee (Fin a) tradingFeePPM = Fin (of_int \<lceil>a * 1000000 / (1000000 - of_int tradingFeePPM)\<rceil>)"
  by (simp add: addFee_def PPM_RESOLUTION_def)

lemma subtractFee_Fin:
  "subtractFee (Fin a) tradingFeePPM = Fin (of_int \<lfloor>a * (1000000 - of_int tradingFeePPM) / 1000000\<rfloor>)"
  by (simp add: subtractFee_def PPM_RESOLUTION_def)

text \<open>
  Claim C7. For a fee below 1,000,000 parts per million, \<open>addFee\<close> is the ceiling of
  \<open>amount * 1000000 / (1000000 - fee)\<close> and \<open>subtractFee\<close> is the floor of
  \<open>amount * (1000000 - fee) / 1000000\<close>: the gross amount is rounded up and the net
  amount is rounded down. In particular \<open>addFee 1000 2000 = 1003\<close>.
\<close>

theorem addFee_subtractFee_rounding:
  "tradingFeePPM < 1000000 \<Longrightarrow>
     addFee (Fin amount) tradingFeePPM
       = Fin (of_int \<lceil>amount * 1000000 / (1000000 - of_int tradingFeePPM)\<rceil>)
   \<and> subtractFee (Fin amount) tradingFeePPM
       = Fin (of_int \<lfloor>amount * (1000000 - of_int tradingFeePPM) / 1000000\<rfloor>)
   \<and> addFee (Fin 1000) 2000 = Fin 1003"
  by (simp add: addFee_Fin subtractFee_Fin)

theorem addFee_subtractFee_rounding_witness:
  "(2000::int) < 1000000 \<and> addFee (Fin 1000) 2000 = Fin 1003
   \<and> subtractFee (Fin 1000) 2000 = Fin 998"
  using addFee_subtractFee_rounding [of 2000 1000] by simp

text \<open>
  Claim C8. For an integer amount \<open>x\<close> and a fee below 1,000,000 parts per million, adding
  the fee and then subtracting it gives at least \<open>x\<close>, and subtracting the fee and then
  adding it gives at most \<open>x\<close>: both compositions are finite and biased towards the
  protocol.
\<close>

theorem fee_compositions_biased:
  fixes x :: int
  assumes "tradingFeePPM < 1000000"
  shows "(\<exists>gross net. addFee (Fin (of_int x)) tradingFeePPM = Fin gross
            \<and> subtractFee (Fin gross) tradingFeePPM = Fin net \<and> of_int x \<le> net)
       \<and> (\<exists>net gross. subtractFee (Fin (of_int x)) tradingFeePPM = Fin net
            \<and> addFee (Fin net) tradingFeePPM = Fin gross \<and> gross \<le> of_int x)"
proof -
  define D :: real where "D = 1000000 - of_int tradingFeePPM"
  have D: "0 < D" using assms by (simp add: D_def)
  define g where "g = \<lceil>of_int x * 1000000 / D\<rceil>"
  define n where "n = \<lfloor>of_int x * D / 1000000\<rfloor>"
  have "of_int x * 1000000 / D \<le> of_int g"
    unfolding g_def by (rule le_of_int_ceiling)
  then have "of_int x * 1000000 \<le> of_int g * D"
    using D by (simp add: pos_divide_le_eq)
  then have "of_int x \<le> of_int g * D / 1000000" by simp
  then have up: "x \<le> \<lfloor>of_int g * D / 1000000\<rfloor>" by (simp add: le_floor_iff)
  have "of_int n \<le> of_int x * D / 1000000"
    unfolding n_def by (rule of_int_floor_le)
  then have "of_int n * 1000000 \<le> of_int x * D" by (simp add: pos_le_divide_eq)
  then have "of_int n * 1000000 / D \<le> of_int x"
    using D by (simp add: pos_divide_le_eq)
  then have down: "\<lceil>of_int n * 1000000 / D\<rceil> \<le> x" by (simp add: ceiling_le_iff)
  from up have A: "\<exists>gross net. addFee (Fin (of_int x)) tradingFeePPM = Fin gross
            \<and> subtractFee (Fin gross) tradingFeePPM = Fin net \<and> of_int x \<le> net"
    using assms by (simp add: addFee_Fin subtractFee_Fin g_def D_def)
  from down have B: "\<exists>net gross. subtractFee (Fin (of_int x)) tradingFeePPM = Fin net
            \<and> addFee (Fin net) tradingFeePPM = Fin gross \<and> gross \<le> of_int x"
    using assms by (simp add: addFee_Fin subtractFee_Fin n_def D_def)
  from A B show ?thesis by blast
qed

theorem fee_compositions_biased_witness:
  "(2000::int) < 1000000
   \<and> (\<exists>gross net. addFee (Fin 1000) 2000 = Fin gross
            \<and> subtractFee (Fin gross) 2000 = Fin net \<and> 1000 \<le> net)
   \<and> (\<exists>net gross. subtractFee (Fin 1000) 2000 = Fin net
            \<and> addFee (Fin net) 2000 = Fin gross \<and> gross \<le> 1000)"
  using fee_compositions_biased [of 2000 1000] by simp

section \<open>The overlapping distribution on finite inputs\<close>


lemma minus_dec_Fin: "minus_dec (Fin x) (Fin y) = Fin (x - y)"
  by (simp add: minus_dec_def)

lemma div_dec_Fin: "y \<noteq> 0 \<Longrightarrow> div_dec (Fin x) (Fin y) = Fin (x / y)"
  by simp

lemma div_dec_numerals:
  "div_dec (Fin x) (Fin 100) = Fin (x / 100)" "div_dec (Fin x) (Fin 2) = Fin (x / 2)"
  by simp_all

lemma sqrt_dec_Fin: "0 < x \<Longrightarrow> sqrt_dec (Fin x) = Fin (sqrt x)"
  by simp

lemmas finite_ops = minus_dec_Fin plus_dec.simps times_dec.simps div_dec_numerals
  trimDecimal.simps

lemma calculateOverlappingDistribution_nondegenerate:
  assumes range: "sellPriceHigh - (sellPriceHigh - buyPriceLow) * spreadPercentage / 100
                    - buyPriceLow \<noteq> 0"
    and ratio: "marketPrice - buyPriceLow
                  - (sellPriceHigh - buyPriceLow) * spreadPercentage / 100 / 2 \<noteq> 0"
    and mean: "0 < buyPriceLow * sellPriceHigh"
  shows "calculateOverlappingDistribution baseTokenDecimals quoteTokenDecimals
       (Fin buyPriceLow) (Fin sellPriceHigh) (Fin marketPrice) (Fin spreadPercentage) (Fin buyBudget)
     = reference_distribution baseTokenDecimals quoteTokenDecimals
       buyPriceLow sellPriceHigh marketPrice spreadPercentage buyBudget"
proof -
  from range ratio have r: "(marketPrice - buyPriceLow
       - (sellPriceHigh - buyPriceLow) * spreadPercentage / 100 / 2)
     / (sellPriceHigh - (sellPriceHigh - buyPriceLow) * spreadPercentage / 100 - buyPriceLow)
     \<noteq> 0"
    by (simp only: divide_eq_0_iff de_Morgan_disj) simp
  from mean have "0 < sqrt (buyPriceLow * sellPriceHigh)" by (rule real_sqrt_gt_zero)
  then have "0 \<noteq> sqrt (buyPriceLow * sellPriceHigh)" by (rule order.strict_implies_not_eq)
  then have g: "sqrt (buyPriceLow * sellPriceHigh) \<noteq> 0" by (rule not_sym)
  show ?thesis
    unfolding calculateOverlappingDistribution_def reference_distribution_def Let_def
    by (simp only: finite_ops div_dec_Fin [OF range] div_dec_Fin [OF r] div_dec_Fin [OF g]
        sqrt_dec_Fin [OF mean] OverlappingDistributionResult.simps)
qed

lemma truncate_places_nonneg_eq:
  "0 \<le> x \<Longrightarrow> truncate_places n x = of_int \<lfloor>x * 10 ^ n\<rfloor> / 10 ^ n"
  by (simp add: truncate_places_def)

lemma truncate_places_le: "0 \<le> x \<Longrightarrow> truncate_places n x \<le> x"
proof -
  assume x: "0 \<le> x"
  have "of_int \<lfloor>x * 10 ^ n\<rfloor> \<le> x * 10 ^ n" by (rule of_int_floor_le)
  then have "of_int \<lfloor>x * 10 ^ n\<rfloor> / 10 ^ n \<le> x" by (simp add: pos_divide_le_eq)
  with x show ?thesis by (simp only: truncate_places_nonneg_eq)
qed

lemma truncate_places_nonneg: "0 \<le> x \<Longrightarrow> 0 \<le> truncate_places n x"
  by (simp add: truncate_places_nonneg_eq)

lemma truncate_places_mono:
  assumes "0 \<le> x" and "x \<le> y"
  shows "truncate_places n x \<le> truncate_places n y"
proof -
  from assms have y: "0 \<le> y" by simp
  from assms(2) have "x * 10 ^ n \<le> y * 10 ^ n" by (simp add: mult_right_mono)
  then have "\<lfloor>x * 10 ^ n\<rfloor> \<le> \<lfloor>y * 10 ^ n\<rfloor>" by (rule floor_mono)
  then have "(of_int \<lfloor>x * 10 ^ n\<rfloor> :: real) / 10 ^ n \<le> of_int \<lfloor>y * 10 ^ n\<rfloor> / 10 ^ n"
    by (simp add: divide_right_mono)
  with assms(1) y show ?thesis by (simp only: truncate_places_nonneg_eq)
qed

text \<open>
  Claim C5, amended. For \<open>0 < buyPriceLow < sellPriceHigh\<close>, a spread percentage in
  \<open>[0, 100)\<close>, a buy budget that is not negative, a \<open>buyPriceLow\<close> with no more
  fractional digits than the quote token has decimals, and a market price above
  \<open>buyPriceLow + spread / 2\<close> and at most \<open>sellPriceHigh - spread / 2\<close>, the result
  is finite and satisfies
  \<open>buyPriceLow \<le> sellPriceLow \<le> sellPriceMarginal \<le> sellPriceHigh\<close>,
  \<open>buyPriceLow \<le> buyPriceMarginal \<le> buyPriceHigh \<le> sellPriceHigh\<close> and
  \<open>0 \<le> sellBudget\<close>.
\<close>

theorem overlapping_distribution_ordered:
  fixes buyPriceLow sellPriceHigh marketPrice spreadPercentage buyBudget spread :: real
  assumes bounds: "0 < buyPriceLow" "buyPriceLow < sellPriceHigh"
    and percentage: "0 \<le> spreadPercentage" "spreadPercentage < 100"
    and budget: "0 \<le> buyBudget"
    and spread: "spread = (sellPriceHigh - buyPriceLow) * spreadPercentage / 100"
    and market: "buyPriceLow + spread / 2 < marketPrice" "marketPrice \<le> sellPriceHigh - spread / 2"
    and grid: "truncate_places quoteTokenDecimals buyPriceLow = buyPriceLow"
  shows "\<exists>buyPriceHigh buyPriceMarginal sellPriceLow sellPriceMarginal sellBudget.
     calculateOverlappingDistribution baseTokenDecimals quoteTokenDecimals
       (Fin buyPriceLow) (Fin sellPriceHigh) (Fin marketPrice) (Fin spreadPercentage) (Fin buyBudget)
     = \<lparr>res_buyPriceHigh = Fin buyPriceHigh, res_buyPriceMarginal = Fin buyPriceMarginal,
        res_sellPriceLow = Fin sellPriceLow, res_sellPriceMarginal = Fin sellPriceMarginal,
        res_sellBudget = Fin sellBudget\<rparr>
     \<and> buyPriceLow \<le> sellPriceLow \<and> sellPriceLow \<le> sellPriceMarginal
     \<and> sellPriceMarginal \<le> sellPriceHigh
     \<and> buyPriceLow \<le> buyPriceMarginal \<and> buyPriceMarginal \<le> buyPriceHigh
     \<and> buyPriceHigh \<le> sellPriceHigh
     \<and> 0 \<le> sellBudget"
proof -
  define R where "R = sellPriceHigh - spread - buyPriceLow"
  define lr where "lr = marketPrice - buyPriceLow - spread / 2"
  define ratio where "ratio = lr / R"
  have s0: "0 \<le> spread"
    unfolding spread using bounds percentage by simp
  have "R = (sellPriceHigh - buyPriceLow) * (1 - spreadPercentage / 100)"
    unfolding R_def spread by (simp add: algebra_simps)
  moreover have "0 < (sellPriceHigh - buyPriceLow) * (1 - spreadPercentage / 100)"
    using bounds percentage by (intro mult_pos_pos) simp_all
  ultimately have R: "0 < R" by simp
  have lr: "0 < lr" "lr \<le> R" using market by (simp_all add: lr_def R_def)
  have ratio: "0 < ratio" "ratio \<le> 1" using lr R by (simp_all add: ratio_def)
  have mean: "0 < buyPriceLow * sellPriceHigh" using bounds by simp
  have range: "sellPriceHigh - (sellPriceHigh - buyPriceLow) * spreadPercentage / 100
                    - buyPriceLow \<noteq> 0"
    using R unfolding R_def spread by linarith
  have num: "marketPrice - buyPriceLow
                  - (sellPriceHigh - buyPriceLow) * spreadPercentage / 100 / 2 \<noteq> 0"
    using lr(1) unfolding lr_def spread by linarith
  let ?bph = "sellPriceHigh - spread"
  let ?spl = "buyPriceLow + spread"
  let ?bpm = "buyPriceLow + (?bph - buyPriceLow) * ratio"
  let ?spm = "sellPriceHigh - (sellPriceHigh - ?spl) * (1 - ratio)"
  let ?sb = "buyBudget / ratio / sqrt (buyPriceLow * sellPriceHigh) * (1 - ratio)"
  let ?q = quoteTokenDecimals
  have eq: "calculateOverlappingDistribution baseTokenDecimals quoteTokenDecimals
       (Fin buyPriceLow) (Fin sellPriceHigh) (Fin marketPrice) (Fin spreadPercentage) (Fin buyBudget)
     = \<lparr>res_buyPriceHigh = Fin (truncate_places ?q ?bph),
        res_buyPriceMarginal = Fin (truncate_places ?q ?bpm),
        res_sellPriceLow = Fin (truncate_places ?q ?spl),
        res_sellPriceMarginal = Fin (truncate_places ?q ?spm),
        res_sellBudget = Fin (truncate_places baseTokenDecimals ?sb)\<rparr>"
    unfolding calculateOverlappingDistribution_nondegenerate [OF range num mean]
    unfolding reference_distribution_def Let_def ratio_def lr_def R_def spread ..
  have bpm: "?bpm = marketPrice - spread / 2"
  proof -
    have "(?bph - buyPriceLow) * ratio = lr"
      using R unfolding ratio_def R_def [symmetric] by simp
    then show ?thesis by (simp add: lr_def)
  qed
  have spm: "?spm = marketPrice + spread / 2"
  proof -
    have a: "sellPriceHigh - ?spl = R" by (simp add: R_def)
    have b: "R * (1 - ratio) = R - lr" using R by (simp add: ratio_def algebra_simps)
    have "?spm = sellPriceHigh - R * (1 - ratio)" by (simp only: a)
    also have "\<dots> = sellPriceHigh - (R - lr)" by (simp only: b)
    also have "\<dots> = marketPrice + spread / 2" by (simp add: R_def lr_def)
    finally show ?thesis .
  qed
  have c1: "buyPriceLow \<le> truncate_places ?q ?spl"
    using truncate_places_mono [of buyPriceLow ?spl ?q] bounds s0 grid by simp
  have c2: "truncate_places ?q ?spl \<le> truncate_places ?q ?spm"
    unfolding spm using bounds s0 market by (intro truncate_places_mono) simp_all
  have c3: "truncate_places ?q ?spm \<le> sellPriceHigh"
  proof -
    have "0 \<le> ?spm" unfolding spm using bounds s0 market by simp
    then have "truncate_places ?q ?spm \<le> ?spm" by (rule truncate_places_le)
    also have "?spm \<le> sellPriceHigh" unfolding spm using market by simp
    finally show ?thesis .
  qed
  have c4: "buyPriceLow \<le> truncate_places ?q ?bpm"
    using truncate_places_mono [of buyPriceLow ?bpm ?q] bounds s0 market grid
    unfolding bpm by simp
  have c5: "truncate_places ?q ?bpm \<le> truncate_places ?q ?bph"
    unfolding bpm using bounds s0 market by (intro truncate_places_mono) simp_all
  have c6: "truncate_places ?q ?bph \<le> sellPriceHigh"
  proof -
    have "0 \<le> ?bph" using bounds s0 market by simp
    then have "truncate_places ?q ?bph \<le> ?bph" by (rule truncate_places_le)
    also have "?bph \<le> sellPriceHigh" using s0 by simp
    finally show ?thesis .
  qed
  have c7: "0 \<le> truncate_places baseTokenDecimals ?sb"
  proof (rule truncate_places_nonneg)
    have "0 \<le> buyBudget / ratio" using budget ratio by simp
    moreover have "0 \<le> sqrt (buyPriceLow * sellPriceHigh)" using mean by simp
    ultimately have "0 \<le> buyBudget / ratio / sqrt (buyPriceLow * sellPriceHigh)"
      by (rule divide_nonneg_nonneg)
    moreover have "0 \<le> 1 - ratio" using ratio by simp
    ultimately show "0 \<le> ?sb" by (rule mult_nonneg_nonneg)
  qed
  from eq c1 c2 c3 c4 c5 c6 c7 show ?thesis by blast
qed

theorem overlapping_distribution_ordered_witness:
  "(0::real) < 1 \<and> (1::real) < 4 \<and> (0::real) \<le> 50 \<and> (50::real) < 100 \<and> (0::real) \<le> 1
   \<and> (3 / 2 :: real) = (4 - 1) * 50 / 100
   \<and> (1::real) + (3 / 2) / 2 < 2 \<and> (2::real) \<le> 4 - (3 / 2) / 2
   \<and> truncate_places 6 1 = 1
   \<and> (\<exists>buyPriceHigh buyPriceMarginal sellPriceLow sellPriceMarginal sellBudget.
     calculateOverlappingDistribution 18 6 (Fin 1) (Fin 4) (Fin 2) (Fin 50) (Fin 1)
     = \<lparr>res_buyPriceHigh = Fin buyPriceHigh, res_buyPriceMarginal = Fin buyPriceMarginal,
        res_sellPriceLow = Fin sellPriceLow, res_sellPriceMarginal = Fin sellPriceMarginal,
        res_sellBudget = Fin sellBudget\<rparr>
     \<and> 1 \<le> sellPriceLow \<and> sellPriceLow \<le> sellPriceMarginal
     \<and> sellPriceMarginal \<le> 4
     \<and> 1 \<le> buyPriceMarginal \<and> buyPriceMarginal \<le> buyPriceHigh
     \<and> buyPriceHigh \<le> 4
     \<and> 0 \<le> sellBudget)"
proof -
  have t: "truncate_places 6 1 = 1" by (simp add: truncate_places_def)
  show ?thesis
    using overlapping_distribution_ordered [of 1 4 50 1 "3 / 2" 2 6 18] t by simp
qed

text \<open>
  The claim as stated asks only for a market price within the outer bounds. At the market
  price \<open>buyPriceLow\<close> with a spread of 50 percent the marginal buy price falls below
  \<open>buyPriceLow\<close>, the marginal sell price below \<open>sellPriceLow\<close>, and the sell
  budget is negative.
\<close>

theorem overlapping_distribution_market_at_bound:
  "calculateOverlappingDistribution 18 6 (Fin 1) (Fin 4) (Fin 1) (Fin 50) (Fin 1)
   = \<lparr>res_buyPriceHigh = Fin (5 / 2), res_buyPriceMarginal = Fin (1 / 4),
      res_sellPriceLow = Fin (5 / 2), res_sellPriceMarginal = Fin (7 / 4),
      res_sellBudget = Fin (- (3 / 2))\<rparr>
   \<and> (1 / 4 :: real) < 1 \<and> (7 / 4 :: real) < 5 / 2 \<and> (- (3 / 2) :: real) < 0"
  by (simp add: calculateOverlappingDistribution_def Let_def minus_dec_def truncate_places_def)

lemma buyPriceRange_zero:
  fixes buyPriceLow sellPriceHigh spreadPercentage :: real
  assumes "spreadPercentage = 100 \<or> buyPriceLow = sellPriceHigh"
  shows "sellPriceHigh - (sellPriceHigh - buyPriceLow) * spreadPercentage / 100 - buyPriceLow = 0"
    and "sellPriceHigh - (buyPriceLow + (sellPriceHigh - buyPriceLow) * spreadPercentage / 100) = 0"
  using assms by (auto simp: diff_divide_distrib)

lemma zero_divisor_cases:
  obtains "div_dec (Fin x) (Fin 0) = NaN" | n where "div_dec (Fin x) (Fin 0) = Infinity n"
  by (cases "x = 0") simp_all

lemma undefined_marginal:
  assumes "d = NaN \<or> d = Infinity n"
  shows "plus_dec (Fin a) (times_dec (Fin 0) d) = NaN"
    and "minus_dec (Fin a) (times_dec (Fin 0) (minus_dec (Fin 1) d)) = NaN"
  using assms by (auto simp: minus_dec_def)

lemma undefined_budget:
  assumes "d = NaN \<or> d = Infinity n"
  shows "times_dec (div_dec (div_dec (Fin b) d) (sqrt_dec (Fin g))) (minus_dec (Fin 1) d) = NaN"
  using assms by (auto simp: minus_dec_def)

text \<open>
  Claim C1, amended. When the spread percentage is 100 or the two outer bounds are equal, the
  divisor of the budget ratio is zero. No error is raised: the division yields an infinite or
  undefined ratio, and the result carries NaN as marginal buy price, marginal sell price and
  sell budget.
\<close>

theorem degenerate_range_propagates:
  fixes buyPriceLow sellPriceHigh marketPrice spreadPercentage buyBudget :: real
  assumes "spreadPercentage = 100 \<or> buyPriceLow = sellPriceHigh"
  shows "res_buyPriceMarginal (calculateOverlappingDistribution baseTokenDecimals quoteTokenDecimals
       (Fin buyPriceLow) (Fin sellPriceHigh) (Fin marketPrice) (Fin spreadPercentage) (Fin buyBudget))
     = NaN
   \<and> res_sellPriceMarginal (calculateOverlappingDistribution baseTokenDecimals quoteTokenDecimals
       (Fin buyPriceLow) (Fin sellPriceHigh) (Fin marketPrice) (Fin spreadPercentage) (Fin buyBudget))
     = NaN
   \<and> res_sellBudget (calculateOverlappingDistribution baseTokenDecimals quoteTokenDecimals
       (Fin buyPriceLow) (Fin sellPriceHigh) (Fin marketPrice) (Fin spreadPercentage) (Fin buyBudget))
     = NaN"
proof -
  note zero = buyPriceRange_zero [OF assms]
  let ?lr = "marketPrice - buyPriceLow
               - (sellPriceHigh - buyPriceLow) * spreadPercentage / 100 / 2"
  obtain d n where d: "div_dec (Fin ?lr) (Fin 0) = d" and c: "d = NaN \<or> d = Infinity n"
    by (rule zero_divisor_cases [of ?lr]) auto
  show ?thesis
    unfolding calculateOverlappingDistribution_def Let_def
    by (simp only: finite_ops zero d undefined_marginal [OF c] undefined_budget [OF c]
        OverlappingDistributionResult.simps simp_thms)
qed

theorem degenerate_range_propagates_witness:
  "res_buyPriceMarginal
     (calculateOverlappingDistribution 18 6 (Fin 2) (Fin 2) (Fin 2) (Fin 10) (Fin 1)) = NaN
   \<and> res_sellPriceMarginal
     (calculateOverlappingDistribution 18 6 (Fin 2) (Fin 2) (Fin 2) (Fin 10) (Fin 1)) = NaN
   \<and> res_sellBudget
     (calculateOverlappingDistribution 18 6 (Fin 2) (Fin 2) (Fin 2) (Fin 10) (Fin 1)) = NaN"
  using degenerate_range_propagates [of 10 2 2 18 6 2 1] by simp

text \<open>
  The claim as stated expects a failure with a degenerate range error. At a spread of 100
  percent the function returns a result, three of whose fields are NaN.
\<close>

theorem full_spread_returns_undefined:
  "calculateOverlappingDistribution 18 6 (Fin 1) (Fin 4) (Fin 2) (Fin 100) (Fin 1)
   = \<lparr>res_buyPriceHigh = Fin 1, res_buyPriceMarginal = NaN,
      res_sellPriceLow = Fin 4, res_sellPriceMarginal = NaN,
      res_sellBudget = NaN\<rparr>"
  by (simp add: calculateOverlappingDistribution_def Let_def minus_dec_def truncate_places_def)

section \<open>The overlapping distribution at the working precision\<close>












end
